theory Spec2Isabelle
  imports Complex_Main "HOL-Library.Word"
begin

unbundle bit_operations_syntax

section \<open>The live session of DevMentor AI (src/components/LiveSession.tsx)\<close>

text \<open>
  A shallow embedding of the audio helper functions and of the event handlers of the
  \<^verbatim>\<open>LiveSession\<close> component. Values of the host platform are modelled as follows.
  \<^item> A JavaScript string is the list of its UTF-16 code units (\<open>nat\<close>, each below 65536).
  \<^item> A \<^verbatim>\<open>Uint8Array\<close> is a list of \<open>8 word\<close>, an \<^verbatim>\<open>Int16Array\<close> a list of \<open>16 word\<close>
    (read signed with \<open>sint\<close>).
  \<^item> A finite JavaScript number is a \<open>real\<close>. The arithmetic of the audio helpers is
    exact on the values they meet (scaling by the power of two 32768 of a sample between
    -1 and 1, truncation, division of a 16-bit integer by 32768), so the reals compute
    what the doubles compute there. \<^verbatim>\<open>NaN\<close> and the infinities are outside the model.
  \<^item> The times of the playback clock and the durations of the buffers are reals too.
    The scheduler only takes a maximum and adds a duration; every sum stated about it
    is a sum that the handler itself computes.
  \<^item> An exception is a value of \<open>js_error\<close>; a function that can throw returns
    \<open>js_error + 'a\<close>.
  \<^item> Every handler of the component runs on the one event loop of the page, so a handler
    is a function from the state before it to the state after it. What it reads from
    the outside (the device clock, the outcome of a permission request, the frame on
    the canvas) is a parameter.
\<close>

type_synonym jsstring = "nat list"
type_synonym byte = "8 word"
type_synonym int16 = "16 word"
type_synonym handle = int

datatype js_error = InvalidCharacterError | RangeError | NotSupportedError | InvalidStateError
  | NotAllowedError | NetworkError

subsection \<open>The platform's base64 functions \<^verbatim>\<open>btoa\<close> and \<^verbatim>\<open>atob\<close>\<close>

text \<open>
  \<^verbatim>\<open>btoa\<close> and \<^verbatim>\<open>atob\<close> are functions of the browser, specified by the HTML and Infra
  standards (forgiving-base64 encode and decode). The base64 alphabet maps the sextets
  0..25 to \<^verbatim>\<open>A..Z\<close> (65..90), 26..51 to \<^verbatim>\<open>a..z\<close> (97..122), 52..61 to \<^verbatim>\<open>0..9\<close>
  (48..57), 62 to \<^verbatim>\<open>+\<close> (43) and 63 to \<^verbatim>\<open>/\<close> (47); the padding is \<^verbatim>\<open>=\<close> (61).
\<close>

definition b64char :: "nat \<Rightarrow> nat" where
  "b64char v =
     (if v < 26 then 65 + v
      else if v < 52 then 97 + (v - 26)
      else if v < 62 then 48 + (v - 52)
      else if v = 62 then 43
      else 47)"

definition b64val :: "nat \<Rightarrow> nat option" where
  "b64val c =
     (if 65 \<le> c \<and> c \<le> 90 then Some (c - 65)
      else if 97 \<le> c \<and> c \<le> 122 then Some (c - 97 + 26)
      else if 48 \<le> c \<and> c \<le> 57 then Some (c - 48 + 52)
      else if c = 43 then Some 62
      else if c = 47 then Some 63
      else None)"

text \<open>Three bytes give four characters; one or two trailing bytes are padded.\<close>

fun btoa_groups :: "nat list \<Rightarrow> nat list" where
  "btoa_groups (a # b # c # rest) =
     [b64char (a div 4), b64char ((a mod 4) * 16 + b div 16),
      b64char ((b mod 16) * 4 + c div 64), b64char (c mod 64)] @ btoa_groups rest"
| "btoa_groups [a, b] =
     [b64char (a div 4), b64char ((a mod 4) * 16 + b div 16), b64char ((b mod 16) * 4), 61]"
| "btoa_groups [a] = [b64char (a div 4), b64char ((a mod 4) * 16), 61, 61]"
| "btoa_groups [] = []"

text \<open>\<^verbatim>\<open>btoa\<close> throws on a code unit above 255.\<close>

definition btoa :: "jsstring \<Rightarrow> js_error + jsstring" where
  "btoa s = (if list_ex (\<lambda>c. 255 < c) s then Inl InvalidCharacterError else Inr (btoa_groups s))"

definition ascii_whitespace :: "nat \<Rightarrow> bool" where
  "ascii_whitespace c = (c = 9 \<or> c = 10 \<or> c = 12 \<or> c = 13 \<or> c = 32)"

text \<open>
  When the length is a multiple of four, one or two trailing \<^verbatim>\<open>=\<close> are removed.
\<close>

definition strip_padding :: "jsstring \<Rightarrow> jsstring" where
  "strip_padding d =
     (if length d mod 4 = 0 then
        (if d \<noteq> [] \<and> last d = 61 then
           (if butlast d \<noteq> [] \<and> last (butlast d) = 61 then butlast (butlast d)
            else butlast d)
         else d)
      else d)"

text \<open>
  Four sextets give three bytes; of two trailing sextets the last four bits are dropped,
  of three the last two.
\<close>

fun atob_groups :: "nat list \<Rightarrow> nat list" where
  "atob_groups (a # b # c # d # rest) =
     [a * 4 + b div 16, (b mod 16) * 16 + c div 4, (c mod 4) * 64 + d] @ atob_groups rest"
| "atob_groups [a, b, c] = [a * 4 + b div 16, (b mod 16) * 16 + c div 4]"
| "atob_groups [a, b] = [a * 4 + b div 16]"
| "atob_groups [a] = []"
| "atob_groups [] = []"

definition sextet :: "nat \<Rightarrow> nat" where
  "sextet c = (case b64val c of Some v \<Rightarrow> v | None \<Rightarrow> 0)"

definition atob :: "jsstring \<Rightarrow> js_error + jsstring" where
  "atob s =
     (let d = strip_padding (filter (\<lambda>c. \<not> ascii_whitespace c) s)
      in if length d mod 4 = 1 then Inl InvalidCharacterError
         else if list_ex (\<lambda>c. b64val c = None) d then Inl InvalidCharacterError
         else Inr (atob_groups (map sextet d)))"

subsection \<open>\<^verbatim>\<open>encode\<close> and \<^verbatim>\<open>decode\<close>\<close>

text \<open>
  \<^verbatim>\<open>encode\<close> appends \<^verbatim>\<open>String.fromCharCode(bytes[i])\<close> for every byte and calls
  \<^verbatim>\<open>btoa\<close>; \<^verbatim>\<open>decode\<close> calls \<^verbatim>\<open>atob\<close> and stores \<^verbatim>\<open>charCodeAt(i)\<close> into a
  \<^verbatim>\<open>Uint8Array\<close>, which keeps the value modulo 256.
\<close>

definition encode :: "byte list \<Rightarrow> js_error + jsstring" where
  "encode bytes = btoa (map unat bytes)"

definition decode :: "jsstring \<Rightarrow> js_error + byte list" where
  "decode base64 =
     (case atob base64 of
        Inl e \<Rightarrow> Inl e
      | Inr binaryString \<Rightarrow> Inr (map of_nat binaryString))"

subsection \<open>Typed-array views and the PCM helpers\<close>

text \<open>
  Storing a number into an \<^verbatim>\<open>Int16Array\<close> converts it with the language's
  \<^verbatim>\<open>ToInt16\<close>: the number is truncated towards zero and taken modulo \<open>2^16\<close> into the
  signed range. \<open>word_of_int\<close> is that reduction and \<open>sint\<close> reads the result.
\<close>

definition js_truncate :: "real \<Rightarrow> int" where
  "js_truncate x = (if x < 0 then \<lceil>x\<rceil> else \<lfloor>x\<rfloor>)"

definition toInt16 :: "real \<Rightarrow> int16" where
  "toInt16 x = word_of_int (js_truncate x)"

text \<open>
  \<^verbatim>\<open>new Uint8Array(int16.buffer)\<close> reads the same memory byte by byte: on the
  little-endian hosts the code runs on, the low byte of each element comes first.
\<close>

definition uint8_view :: "int16 list \<Rightarrow> byte list" where
  "uint8_view ws = concat (map (\<lambda>w. [ucast w, ucast (drop_bit 8 w)]) ws)"

fun int16_pairs :: "byte list \<Rightarrow> int16 list" where
  "int16_pairs (lo # hi # rest) = (ucast lo OR push_bit 8 (ucast hi)) # int16_pairs rest"
| "int16_pairs [lo] = []"
| "int16_pairs [] = []"

text \<open>
  \<^verbatim>\<open>new Int16Array(buffer)\<close> throws a \<^verbatim>\<open>RangeError\<close> when the byte length of the buffer
  is not a multiple of the element size 2.
\<close>

definition int16_view :: "byte list \<Rightarrow> js_error + int16 list" where
  "int16_view bytes =
     (if length bytes mod 2 \<noteq> 0 then Inl RangeError else Inr (int16_pairs bytes))"

text \<open>
  The payload of an outbound realtime input, \<^verbatim>\<open>{ data, mimeType }\<close>: the audio blob of
  \<^verbatim>\<open>createBlob\<close> and the JPEG frame of the screen share have this shape.
\<close>

record media =
  data :: jsstring
  mimeType :: string

definition createBlob :: "real list \<Rightarrow> js_error + media" where
  "createBlob inputData =
     (let int16 = map (\<lambda>x. toInt16 (x * 32768)) inputData
      in case encode (uint8_view int16) of
           Inl e \<Rightarrow> Inl e
         | Inr b \<Rightarrow> Inr \<lparr>data = b, mimeType = ''audio/pcm;rate=16000''\<rparr>)"

text \<open>
  An \<^verbatim>\<open>AudioBuffer\<close>: its \<^verbatim>\<open>length\<close> is its number of sample frames, its
  \<^verbatim>\<open>duration\<close> is \<^verbatim>\<open>length / sampleRate\<close> seconds.
\<close>

record audio_buffer =
  numberOfChannels :: nat
  buffer_length :: nat
  sampleRate :: real
  channelData :: "real list list"

definition duration :: "audio_buffer \<Rightarrow> real" where
  "duration b = real (buffer_length b) / sampleRate b"

text \<open>
  \<^verbatim>\<open>createBuffer\<close> of an audio context converts the frame count to an unsigned integer
  (truncating it) and throws a \<^verbatim>\<open>NotSupportedError\<close> when an argument is zero or
  outside its nominal range. The standard demands that at least 32 channels and the
  rates from 8000 to 96000 Hz are supported and leaves the actual limits to the
  browser; the limits here are those of Chromium, 32 channels and 3000 to 768000 Hz.
  The rate 24000 and the one channel of the handler are inside every conforming range.
  The limit on the number of frames is that of the memory and is not modelled. The new
  buffer is silent.
\<close>

definition createBuffer :: "nat \<Rightarrow> real \<Rightarrow> real \<Rightarrow> js_error + audio_buffer" where
  "createBuffer channels frameCount rate =
     (let n = nat (js_truncate frameCount)
      in if channels = 0 \<or> 32 < channels \<or> n = 0 \<or> rate < 3000 \<or> 768000 < rate
         then Inl NotSupportedError
         else Inr \<lparr>numberOfChannels = channels, buffer_length = n, sampleRate = rate,
                    channelData = replicate channels (replicate n 0)\<rparr>)"

text \<open>
  The inner loop of \<^verbatim>\<open>decodeAudioData\<close> runs over the integers \<open>i < frameCount\<close>. A
  store beyond the end of a \<^verbatim>\<open>Float32Array\<close> is ignored; whenever the store is in
  range, so is the read \<^verbatim>\<open>dataInt16[i * numChannels + channel]\<close>. With zero channels
  the quotient is not finite in the source and 0 here; \<^verbatim>\<open>createBuffer\<close> throws on
  both.
\<close>

definition fill_channel :: "int16 list \<Rightarrow> nat \<Rightarrow> nat \<Rightarrow> real \<Rightarrow> real list \<Rightarrow> real list" where
  "fill_channel dataInt16 numChannels channel frameCount channel_data =
     fold (\<lambda>i cd. if i < length cd
                   then cd[i := real_of_int (sint (dataInt16 ! (i * numChannels + channel))) / 32768]
                   else cd)
          [0..<nat \<lceil>frameCount\<rceil>] channel_data"

text \<open>
  \<^verbatim>\<open>decodeAudioData(data, ctx, sampleRate, numChannels)\<close>; the context only serves
  \<^verbatim>\<open>createBuffer\<close> and is not a parameter of the model.
\<close>

definition decodeAudioData :: "byte list \<Rightarrow> real \<Rightarrow> nat \<Rightarrow> js_error + audio_buffer" where
  "decodeAudioData bytes rate numChannels =
     (case int16_view bytes of
        Inl e \<Rightarrow> Inl e
      | Inr dataInt16 \<Rightarrow>
          (let frameCount = real (length dataInt16) / real numChannels
           in case createBuffer numChannels frameCount rate of
                Inl e \<Rightarrow> Inl e
              | Inr buffer \<Rightarrow>
                  Inr (buffer\<lparr>channelData :=
                         map (\<lambda>channel. fill_channel dataInt16 numChannels channel frameCount
                                          (channelData buffer ! channel))
                             [0..<numChannels]\<rparr>)))"

subsection \<open>The state of the component and of the platform objects it holds\<close>

datatype status = Idle | Connecting | Connected | Error

text \<open>
  The promise returned by \<^verbatim>\<open>live.connect\<close>, together with the connection behind it:
  pending, pending with a close requested by a \<^verbatim>\<open>then\<close> callback that waits for the
  fulfilment, fulfilled and open, closed, or rejected.
\<close>

datatype transport_state = Pending | Closing | Open | Closed | Rejected

text \<open>
  An \<^verbatim>\<open>AudioBufferSourceNode\<close>: \<^verbatim>\<open>start(when)\<close> records the start time,
  \<^verbatim>\<open>stop()\<close> throws an \<^verbatim>\<open>InvalidStateError\<close> on a node that was never started and
  otherwise ends its output (stopping a node that has finished changes nothing audible).
\<close>

record source_node =
  node_buffer :: audio_buffer
  startedAt :: "real option"
  stopped :: bool

definition node_stop :: "source_node \<Rightarrow> js_error + source_node" where
  "node_stop n = (if startedAt n = None then Inl InvalidStateError else Inr (n\<lparr>stopped := True\<rparr>))"

text \<open>
  The callbacks handed to \<^verbatim>\<open>live.connect\<close> are closures created by one call of
  \<^verbatim>\<open>startSession\<close>. They see the constants of that call (\<^verbatim>\<open>inputCtx\<close>,
  \<^verbatim>\<open>outputCtx\<close>, \<^verbatim>\<open>stream\<close>, \<^verbatim>\<open>sessionPromise\<close>) and the constants of the render of
  the component to which that \<^verbatim>\<open>startSession\<close> belongs, among them \<^verbatim>\<open>isMuted\<close>:
  \<^verbatim>\<open>const [isMuted, setIsMuted] = useState(false)\<close> binds a new constant in every
  render, and a closure keeps the one of its own render.
\<close>

record closure =
  inputCtx :: handle
  outputCtx :: handle
  stream :: handle
  sessionPromise :: handle
  isMuted_captured :: bool

text \<open>
  The component's state variables, its refs, and the platform objects behind the
  handles in the refs. A handle is a positive integer; \<open>nextHandle\<close> is the next unused
  one. Interval identifiers are handles too, so a stored identifier is truthy.
\<close>

record session =
  isActive :: bool
  status :: status
  isMuted :: bool
  isScreenSharing :: bool
  volumeLevel :: real
  audioContextRef :: "handle option"
  inputAudioContextRef :: "handle option"
  streamRef :: "handle option"
  processorRef :: "handle option"
  sourceRef :: "handle option"
  screenStreamRef :: "handle option"
  videoRef :: bool
  canvasRef :: bool
  video_srcObject :: "handle option"
  screenIntervalRef :: "handle option"
  sessionPromiseRef :: "handle option"
  aiRef :: bool
  nextStartTimeRef :: real
  sourcesRef :: "nat list"
  nextHandle :: handle
  openContexts :: "handle set"
  liveStreams :: "handle set"
  connectedNodes :: "handle set"
  intervals :: "handle \<rightharpoonup> nat"
  onendedHandlers :: "handle set"
  transports :: "handle \<rightharpoonup> transport_state"
  liveCallbacks :: "closure option"
  nodes :: "source_node list"
  sent :: "media list"

text \<open>
  \<open>openContexts\<close>: the audio contexts not yet closed. \<open>liveStreams\<close>: the media
  streams that still have a live track (the \<^verbatim>\<open>active\<close> streams). \<open>connectedNodes\<close>:
  the capture nodes still connected. \<open>intervals\<close>: the running interval timers with
  their period in milliseconds. \<open>onendedHandlers\<close>: the display streams whose video
  track has the \<^verbatim>\<open>onended\<close> handler. \<open>nodes\<close>: every playback source created so far;
  a source is named by its index, and \<open>sourcesRef\<close> (a \<^verbatim>\<open>Set\<close>, kept in insertion
  order) holds such indices. \<open>sent\<close>: the payloads handed to
  \<^verbatim>\<open>session.sendRealtimeInput\<close>, oldest first.

  The component after its mount effect, which creates the client, the hidden video
  element and the canvas:
\<close>

definition mounted_session :: session where
  "mounted_session =
     \<lparr>isActive = False, status = Idle, isMuted = False, isScreenSharing = False,
      volumeLevel = 0, audioContextRef = None, inputAudioContextRef = None,
      streamRef = None, processorRef = None, sourceRef = None, screenStreamRef = None,
      videoRef = True, canvasRef = True, video_srcObject = None, screenIntervalRef = None,
      sessionPromiseRef = None, aiRef = True, nextStartTimeRef = 0, sourcesRef = [],
      nextHandle = 1, openContexts = {}, liveStreams = {}, connectedNodes = {},
      intervals = Map.empty, onendedHandlers = {}, transports = Map.empty,
      liveCallbacks = None, nodes = [], sent = []\<rparr>"

subsection \<open>Screen sharing\<close>

text \<open>
  \<^verbatim>\<open>stopScreenShare\<close> is four steps, each guarded by its own test: the timer, the
  display stream, the video element, the state variable.
\<close>

definition clear_screen_interval :: "session \<Rightarrow> session" where
  "clear_screen_interval s =
     (case screenIntervalRef s of
        None \<Rightarrow> s
      | Some t \<Rightarrow> s\<lparr>intervals := (intervals s)(t := None), screenIntervalRef := None\<rparr>)"

definition stop_screen_stream :: "session \<Rightarrow> session" where
  "stop_screen_stream s =
     (case screenStreamRef s of
        None \<Rightarrow> s
      | Some st \<Rightarrow> s\<lparr>liveStreams := liveStreams s - {st}, screenStreamRef := None\<rparr>)"

definition detach_video :: "session \<Rightarrow> session" where
  "detach_video s = (if videoRef s then s\<lparr>video_srcObject := None\<rparr> else s)"

definition stopScreenShare :: "session \<Rightarrow> session" where
  "stopScreenShare s =
     (detach_video (stop_screen_stream (clear_screen_interval s)))\<lparr>isScreenSharing := False\<rparr>"

text \<open>
  \<^verbatim>\<open>startScreenShare\<close>. \<open>display\<close> is the outcome of \<^verbatim>\<open>getDisplayMedia\<close> and
  \<open>has2d\<close> tells whether the canvas yields a 2d context.
\<close>

definition startScreenShare :: "js_error + unit \<Rightarrow> bool \<Rightarrow> session \<Rightarrow> session" where
  "startScreenShare display has2d s =
     (case sessionPromiseRef s of
        None \<Rightarrow> s
      | Some _ \<Rightarrow>
          (case display of
             Inl e \<Rightarrow> s\<lparr>isScreenSharing := False\<rparr>
           | Inr _ \<Rightarrow>
               (let st = nextHandle s;
                    s1 = s\<lparr>nextHandle := st + 1, liveStreams := insert st (liveStreams s),
                           screenStreamRef := Some st\<rparr>;
                    s2 = (if videoRef s1 then s1\<lparr>video_srcObject := Some st\<rparr> else s1);
                    s3 = s2\<lparr>isScreenSharing := True\<rparr>
                in if \<not> canvasRef s3 \<or> \<not> videoRef s3 then s3
                   else if \<not> has2d then s3
                   else (let t = nextHandle s3
                         in s3\<lparr>nextHandle := t + 1, intervals := (intervals s3)(t \<mapsto> 1000),
                                screenIntervalRef := Some t,
                                onendedHandlers := insert st (onendedHandlers s3)\<rparr>))))"

text \<open>
  The interval callback; \<open>base64Data\<close> is what the canvas gives for the current frame.
\<close>

definition screenTick :: "jsstring \<Rightarrow> session \<Rightarrow> session" where
  "screenTick base64Data s =
     (if (case screenStreamRef s of None \<Rightarrow> True | Some st \<Rightarrow> st \<notin> liveStreams s)
      then stopScreenShare s
      else (case sessionPromiseRef s of
              None \<Rightarrow> s
            | Some p \<Rightarrow>
                (if transports s p = Some Open
                 then s\<lparr>sent := sent s @ [\<lparr>data = base64Data, mimeType = ''image/jpeg''\<rparr>]\<rparr>
                 else s)))"

text \<open>The \<^verbatim>\<open>onended\<close> handler of the video track.\<close>

definition track_onended :: "session \<Rightarrow> session" where
  "track_onended s = stopScreenShare s"

subsection \<open>Teardown\<close>

text \<open>
  \<^verbatim>\<open>sessionPromise.then(session => session.close())\<close>: on a fulfilled promise the
  callback closes the connection, on a pending one it waits, and a rejected promise
  skips the callback and passes its rejection on; \<^verbatim>\<open>.catch(() => {})\<close> then swallows
  it.
\<close>

definition then_close :: "handle \<Rightarrow> session \<Rightarrow> js_error + session" where
  "then_close p s =
     (case transports s p of
        Some Rejected \<Rightarrow> Inl NetworkError
      | Some Open \<Rightarrow> Inr (s\<lparr>transports := (transports s)(p \<mapsto> Closed)\<rparr>)
      | Some Pending \<Rightarrow> Inr (s\<lparr>transports := (transports s)(p \<mapsto> Closing)\<rparr>)
      | Some _ \<Rightarrow> Inr s
      | None \<Rightarrow> Inr s)"

definition close_swallowing :: "handle \<Rightarrow> session \<Rightarrow> session" where
  "close_swallowing p s = (case then_close p s of Inl e \<Rightarrow> s | Inr s' \<Rightarrow> s')"

text \<open>
  \<^verbatim>\<open>stopSession\<close>: after \<^verbatim>\<open>stopScreenShare\<close>, one guarded block for each ref, in the
  order of the source, then the state variables and the playback clock.
\<close>

definition disconnect_processor :: "session \<Rightarrow> session" where
  "disconnect_processor s =
     (case processorRef s of
        None \<Rightarrow> s
      | Some n \<Rightarrow> s\<lparr>connectedNodes := connectedNodes s - {n}, processorRef := None\<rparr>)"

definition disconnect_source :: "session \<Rightarrow> session" where
  "disconnect_source s =
     (case sourceRef s of
        None \<Rightarrow> s
      | Some n \<Rightarrow> s\<lparr>connectedNodes := connectedNodes s - {n}, sourceRef := None\<rparr>)"

definition stop_microphone :: "session \<Rightarrow> session" where
  "stop_microphone s =
     (case streamRef s of
        None \<Rightarrow> s
      | Some st \<Rightarrow> s\<lparr>liveStreams := liveStreams s - {st}, streamRef := None\<rparr>)"

definition close_output_context :: "session \<Rightarrow> session" where
  "close_output_context s =
     (case audioContextRef s of
        None \<Rightarrow> s
      | Some c \<Rightarrow> s\<lparr>openContexts := openContexts s - {c}, audioContextRef := None\<rparr>)"

definition close_input_context :: "session \<Rightarrow> session" where
  "close_input_context s =
     (case inputAudioContextRef s of
        None \<Rightarrow> s
      | Some c \<Rightarrow> s\<lparr>openContexts := openContexts s - {c}, inputAudioContextRef := None\<rparr>)"

definition close_session :: "session \<Rightarrow> session" where
  "close_session s =
     (case sessionPromiseRef s of
        None \<Rightarrow> s
      | Some p \<Rightarrow> (close_swallowing p s)\<lparr>sessionPromiseRef := None\<rparr>)"

definition stopSession :: "session \<Rightarrow> session" where
  "stopSession s =
     (close_session (close_input_context (close_output_context (stop_microphone
        (disconnect_source (disconnect_processor (stopScreenShare s)))))))
     \<lparr>isActive := False, status := Idle, volumeLevel := 0, nextStartTimeRef := 0\<rparr>"

subsection \<open>Starting a session\<close>

text \<open>
  \<^verbatim>\<open>startSession\<close>. \<open>mic\<close> is the outcome of \<^verbatim>\<open>getUserMedia\<close>, \<open>connectThrows\<close> an
  exception thrown by the call of \<^verbatim>\<open>live.connect\<close> itself, if any (its promise is not
  awaited, so a later rejection does not reach the \<^verbatim>\<open>catch\<close>). The \<^verbatim>\<open>catch\<close> block only
  sets the status.
\<close>

definition startSession :: "js_error + unit \<Rightarrow> js_error option \<Rightarrow> session \<Rightarrow> session" where
  "startSession mic connectThrows s =
     (if \<not> aiRef s then s
      else
        (let s1 = s\<lparr>status := Connecting\<rparr>;
             ictx = nextHandle s1;
             octx = ictx + 1;
             s2 = s1\<lparr>nextHandle := octx + 1,
                    openContexts := insert octx (insert ictx (openContexts s1)),
                    inputAudioContextRef := Some ictx, audioContextRef := Some octx\<rparr>
         in case mic of
              Inl e \<Rightarrow> s2\<lparr>status := Error\<rparr>
            | Inr _ \<Rightarrow>
                (let st = nextHandle s2;
                     s3 = s2\<lparr>nextHandle := st + 1, liveStreams := insert st (liveStreams s2),
                            streamRef := Some st\<rparr>
                 in case connectThrows of
                      Some e \<Rightarrow> s3\<lparr>status := Error\<rparr>
                    | None \<Rightarrow>
                        (let p = nextHandle s3
                         in s3\<lparr>nextHandle := p + 1, transports := (transports s3)(p \<mapsto> Pending),
                                liveCallbacks :=
                                  Some \<lparr>inputCtx = ictx, outputCtx = octx, stream = st,
                                        sessionPromise = p, isMuted_captured = isMuted s\<rparr>,
                                sessionPromiseRef := Some p\<rparr>))))"

text \<open>
  The Start button is the only caller of \<^verbatim>\<open>startSession\<close>: it is rendered while
  \<^verbatim>\<open>isActive\<close> is false and disabled while the status is \<^verbatim>\<open>'connecting'\<close>.
\<close>

definition start_button_enabled :: "session \<Rightarrow> bool" where
  "start_button_enabled s = (\<not> isActive s \<and> status s \<noteq> Connecting)"

definition click_start :: "js_error + unit \<Rightarrow> js_error option \<Rightarrow> session \<Rightarrow> session" where
  "click_start mic connectThrows s =
     (if start_button_enabled s then startSession mic connectThrows s else s)"

subsection \<open>The callbacks of the connection\<close>

text \<open>
  \<^verbatim>\<open>onopen\<close>, a closure of the \<^verbatim>\<open>startSession\<close> call with the constants \<open>env\<close>. The
  connection is open when it runs, and the promise is fulfilled with it; a close that
  was waiting for the fulfilment is carried out then.
\<close>

definition onopen :: "closure \<Rightarrow> session \<Rightarrow> session" where
  "onopen env s =
     (let source = nextHandle s;
          scriptProcessor = source + 1
      in s\<lparr>status := Connected, isActive := True,
            nextHandle := scriptProcessor + 1,
            connectedNodes := insert scriptProcessor (insert source (connectedNodes s)),
            transports :=
              (transports s)(sessionPromise env \<mapsto>
                 (if transports s (sessionPromise env) = Some Closing then Closed else Open)),
            sourceRef := Some source, processorRef := Some scriptProcessor\<rparr>)"

text \<open>
  \<^verbatim>\<open>onaudioprocess\<close>, a closure created inside \<^verbatim>\<open>onopen\<close>: its \<^verbatim>\<open>isMuted\<close> is the
  constant of \<open>env\<close>. The payload is handed to \<^verbatim>\<open>sendRealtimeInput\<close> by a \<^verbatim>\<open>then\<close>
  callback of the promise, which \<^verbatim>\<open>onopen\<close> has seen fulfilled; a closed connection
  drops it.
\<close>

definition onaudioprocess :: "closure \<Rightarrow> real list \<Rightarrow> session \<Rightarrow> session" where
  "onaudioprocess env inputData s =
     (if isMuted_captured env then s
      else
        (let s1 = s\<lparr>volumeLevel :=
                      min 100 ((\<Sum>x\<leftarrow>inputData. \<bar>x\<bar>) / real (length inputData) * 500)\<rparr>
         in case createBlob inputData of
              Inl e \<Rightarrow> s1
            | Inr pcmBlob \<Rightarrow>
                (if transports s1 (sessionPromise env) = Some Open
                 then s1\<lparr>sent := sent s1 @ [pcmBlob]\<rparr>
                 else s1)))"

definition toggleMute :: "session \<Rightarrow> session" where
  "toggleMute s = s\<lparr>isMuted := \<not> isMuted s\<rparr>"

definition onclose :: "session \<Rightarrow> session" where
  "onclose s = stopSession s"

definition onerror :: "session \<Rightarrow> session" where
  "onerror s = stopSession (s\<lparr>status := Error\<rparr>)"

subsection \<open>Inbound messages: playback and interruption\<close>

text \<open>
  The fields of a server message that the handler reads:
  \<^verbatim>\<open>serverContent?.modelTurn?.parts?.[0]?.inlineData?.data\<close> (absent: \<open>None\<close>) and
  \<^verbatim>\<open>serverContent?.interrupted\<close>.
\<close>

record server_message =
  inlineData :: "jsstring option"
  interrupted :: bool

text \<open>Line 161: the playback clock is moved up to the device clock \<open>now\<close>.\<close>

definition clock_sync :: "real \<Rightarrow> session \<Rightarrow> session" where
  "clock_sync now s = s\<lparr>nextStartTimeRef := max (nextStartTimeRef s) now\<rparr>"

text \<open>
  Lines 170 to 180: a new source for the buffer is started at the playback clock, the
  clock advances by the duration of the buffer, and the source joins the set.
\<close>

definition schedule :: "audio_buffer \<Rightarrow> session \<Rightarrow> session" where
  "schedule audioBuffer s =
     (let source = length (nodes s)
      in s\<lparr>nodes := nodes s @ [\<lparr>node_buffer = audioBuffer,
                                  startedAt = Some (nextStartTimeRef s), stopped = False\<rparr>],
            nextStartTimeRef := nextStartTimeRef s + duration audioBuffer,
            sourcesRef := (if source \<in> set (sourcesRef s) then sourcesRef s
                           else sourcesRef s @ [source])\<rparr>)"

definition enqueue :: "real \<Rightarrow> audio_buffer \<Rightarrow> session \<Rightarrow> session" where
  "enqueue now frame s = schedule frame (clock_sync now s)"

text \<open>The listener for \<^verbatim>\<open>'ended'\<close> that every source gets.\<close>

definition source_ended :: "nat \<Rightarrow> session \<Rightarrow> session" where
  "source_ended source s = s\<lparr>sourcesRef := removeAll source (sourcesRef s)\<rparr>"

text \<open>\<^verbatim>\<open>try { src.stop(); } catch(e) {}\<close>\<close>

definition try_stop :: "nat \<Rightarrow> source_node list \<Rightarrow> source_node list" where
  "try_stop src ns =
     (if src < length ns
      then (case node_stop (ns ! src) of Inl e \<Rightarrow> ns | Inr n \<Rightarrow> ns[src := n])
      else ns)"

text \<open>Lines 185 to 190.\<close>

definition interrupt :: "session \<Rightarrow> session" where
  "interrupt s =
     s\<lparr>nodes := fold try_stop (sourcesRef s) (nodes s), sourcesRef := [],
       nextStartTimeRef := 0\<rparr>"

text \<open>
  The audio part of \<^verbatim>\<open>onmessage\<close>, taken when the payload is a non-empty string
  (\<^verbatim>\<open>outputCtx\<close> is an object and always truthy). The handler has no \<^verbatim>\<open>try\<close>: an
  exception of \<^verbatim>\<open>decode\<close> or \<^verbatim>\<open>decodeAudioData\<close> ends it, with the state as it is
  then. The result is that state and the exception, if any. The promise that the
  handler awaits is settled when it is returned, so the handler resumes before the
  next message is delivered.
\<close>

definition play_audio :: "real \<Rightarrow> server_message \<Rightarrow> session \<Rightarrow> session \<times> js_error option" where
  "play_audio now message s =
     (case inlineData message of
        None \<Rightarrow> (s, None)
      | Some base64Audio \<Rightarrow>
          (if base64Audio = [] then (s, None)
           else
             (let s1 = clock_sync now s
              in case decode base64Audio of
                   Inl e \<Rightarrow> (s1, Some e)
                 | Inr bytes \<Rightarrow>
                     (case decodeAudioData bytes 24000 1 of
                        Inl e \<Rightarrow> (s1, Some e)
                      | Inr audioBuffer \<Rightarrow> (schedule audioBuffer s1, None)))))"

definition onmessage :: "real \<Rightarrow> server_message \<Rightarrow> session \<Rightarrow> session \<times> js_error option" where
  "onmessage now message s =
     (case play_audio now message s of
        (s1, Some e) \<Rightarrow> (s1, Some e)
      | (s1, None) \<Rightarrow> (if interrupted message then interrupt s1 else s1, None))"

text \<open>Frames enqueued one after the other, each with the device clock read at its arrival.\<close>

fun enqueue_all :: "(real \<times> audio_buffer) list \<Rightarrow> session \<Rightarrow> session" where
  "enqueue_all [] s = s"
| "enqueue_all ((now, frame) # rest) s = enqueue_all rest (enqueue now frame s)"

text \<open>
  The start times the specification names: the first given, each next one the previous
  plus the previous duration.
\<close>

fun back_to_back :: "real \<Rightarrow> real list \<Rightarrow> real list" where
  "back_to_back t [] = []"
| "back_to_back t (d # ds) = t # back_to_back (t + d) ds"

text \<open>The device clock is behind the playback clock \<open>t\<close> at every arrival.\<close>

fun clock_behind :: "real \<Rightarrow> (real \<times> audio_buffer) list \<Rightarrow> bool" where
  "clock_behind t [] = True"
| "clock_behind t ((now, frame) # rest) = (now \<le> t \<and> clock_behind (t + duration frame) rest)"

section \<open>Auxiliary definitions for the proofs\<close>

text \<open>The sextets of a byte string, before they become characters.\<close>

fun sextets :: "nat list \<Rightarrow> nat list" where
  "sextets (a # b # c # rest) =
     [a div 4, (a mod 4) * 16 + b div 16, (b mod 16) * 4 + c div 64, c mod 64] @ sextets rest"
| "sextets [a, b] = [a div 4, (a mod 4) * 16 + b div 16, (b mod 16) * 4]"
| "sextets [a] = [a div 4, (a mod 4) * 16]"
| "sextets [] = []"

definition padding :: "nat list \<Rightarrow> nat" where
  "padding bs = (3 - length bs mod 3) mod 3"

text \<open>
  What the guarded blocks of the teardown do to the timers and to the connection, as
  functions of the ref they test.
\<close>

definition cleared :: "handle option \<Rightarrow> (handle \<rightharpoonup> nat) \<Rightarrow> (handle \<rightharpoonup> nat)" where
  "cleared r m = (case r of None \<Rightarrow> m | Some t \<Rightarrow> m(t := None))"

definition closed_transports ::
  "handle option \<Rightarrow> (handle \<rightharpoonup> transport_state) \<Rightarrow> (handle \<rightharpoonup> transport_state)" where
  "closed_transports r m =
     (case r of
        None \<Rightarrow> m
      | Some p \<Rightarrow>
          (if m p = Some Open then m(p \<mapsto> Closed)
           else if m p = Some Pending then m(p \<mapsto> Closing)
           else m))"

text \<open>
  The sources that a run of arrivals adds when the playback clock is \<open>t\<close>, and the
  property of the live set that \<^verbatim>\<open>stop()\<close> relies on: its members exist and were
  started.
\<close>

fun scheduled :: "real \<Rightarrow> (real \<times> audio_buffer) list \<Rightarrow> source_node list" where
  "scheduled t [] = []"
| "scheduled t ((now, frame) # rest) =
     \<lparr>node_buffer = frame, startedAt = Some (max t now), stopped = False\<rparr>
       # scheduled (max t now + duration frame) rest"

definition live_started :: "session \<Rightarrow> bool" where
  "live_started s =
     list_all (\<lambda>src. src < length (nodes s) \<and> startedAt (nodes s ! src) \<noteq> None) (sourcesRef s)"


text \<open>
  A run of the component from its mount, used to exhibit the theorems on concrete
  states: the first \<^verbatim>\<open>startSession\<close> with the microphone granted creates the contexts
  1 and 2, the microphone stream 3 and the promise 4, and its closures see
  \<open>start_env\<close>; \<^verbatim>\<open>onopen\<close> creates the capture nodes 5 and 6; sharing the screen
  creates the display stream 7 and the timer 8.
\<close>

definition start_env :: closure where
  "start_env =
     \<lparr>inputCtx = 1, outputCtx = 2, stream = 3, sessionPromise = 4, isMuted_captured = False\<rparr>"

definition connecting_session :: session where
  "connecting_session = startSession (Inr ()) None mounted_session"

definition connected_session :: session where
  "connected_session = onopen start_env connecting_session"

definition sharing_session :: session where
  "sharing_session = startScreenShare (Inr ()) True connected_session"

text \<open>The first \<^verbatim>\<open>startSession\<close> when the microphone is refused.\<close>

definition failed_session :: session where
  "failed_session = startSession (Inl NotAllowedError) None mounted_session"

text \<open>The display stream of the run after the user has revoked the sharing.\<close>

definition revoked_session :: session where
  "revoked_session = sharing_session\<lparr>liveStreams := {3}\<rparr>"

text \<open>
  The state variables \<^verbatim>\<open>status\<close> and \<^verbatim>\<open>isActive\<close> are set together: every handler
  keeps a connected session active.
\<close>

definition active_when_connected :: "session \<Rightarrow> bool" where
  "active_when_connected s = (status s = Connected \<longrightarrow> isActive s)"

text \<open>
  Buffers of one second and of half a second at 24 kHz, the buffer of the four zero
  bytes \<^verbatim>\<open>AAAAAA==\<close>, the message that carries it, the same message with the
  interruption flag, and the mounted component after the first two buffers have been
  enqueued at device time 0.
\<close>

definition one_second :: audio_buffer where
  "one_second =
     \<lparr>numberOfChannels = 1, buffer_length = 24000, sampleRate = 24000,
      channelData = [replicate 24000 0]\<rparr>"

definition half_second :: audio_buffer where
  "half_second =
     \<lparr>numberOfChannels = 1, buffer_length = 12000, sampleRate = 24000,
      channelData = [replicate 12000 0]\<rparr>"

definition two_frames :: audio_buffer where
  "two_frames =
     \<lparr>numberOfChannels = 1, buffer_length = 2, sampleRate = 24000, channelData = [[0, 0]]\<rparr>"

definition two_frames_message :: server_message where
  "two_frames_message = \<lparr>inlineData = Some [65, 65, 65, 65, 65, 65, 61, 61], interrupted = False\<rparr>"

definition flagged_two_frames_message :: server_message where
  "flagged_two_frames_message =
     \<lparr>inlineData = Some [65, 65, 65, 65, 65, 65, 61, 61], interrupted = True\<rparr>"

definition playing_session :: session where
  "playing_session = enqueue 0 half_second (enqueue 0 one_second mounted_session)"

section \<open>Facts about the codec\<close>

subsection \<open>The base64 functions are inverse on bytes\<close>

lemma b64val_b64char: "v < 64 \<Longrightarrow> b64val (b64char v) = Some v"
  unfolding b64val_def b64char_def by (auto split: if_splits)

lemma b64char_not_pad: "b64char v \<noteq> 61"
  unfolding b64char_def by (auto split: if_splits)

lemma b64char_not_ws: "\<not> ascii_whitespace (b64char v)"
  unfolding b64char_def ascii_whitespace_def by (auto split: if_splits)

lemma sextet_b64char: "v < 64 \<Longrightarrow> sextet (b64char v) = v"
  by (simp add: sextet_def b64val_b64char)

lemma btoa_groups_sextets:
  "btoa_groups bs = map b64char (sextets bs) @ replicate (padding bs) 61"
proof (induction bs rule: btoa_groups.induct)
  case (1 a b c rest)
  have "padding (a # b # c # rest) = padding rest" by (simp add: padding_def)
  with 1 show ?case by simp
qed (simp_all add: padding_def numeral_2_eq_2)

lemma sextets_lt: "list_all (\<lambda>b. b < 256) bs \<Longrightarrow> list_all (\<lambda>v. v < 64) (sextets bs)"
  by (induction bs rule: sextets.induct) auto

lemma atob_groups_sextets: "list_all (\<lambda>b. b < 256) bs \<Longrightarrow> atob_groups (sextets bs) = bs"
  by (induction bs rule: sextets.induct) auto

lemma length_sextets: "(length (sextets bs) + padding bs) mod 4 = 0"
proof (induction bs rule: sextets.induct)
  case (1 a b c rest)
  have "padding (a # b # c # rest) = padding rest" by (simp add: padding_def)
  with 1 show ?case by simp
qed (simp_all add: padding_def)

lemma padding_le: "padding bs \<le> 2"
  unfolding padding_def by arith

lemma strip_padding_pad:
  assumes "p \<le> 2" "(length xs + p) mod 4 = 0" "61 \<notin> set xs"
  shows "strip_padding (xs @ replicate p 61) = xs"
proof -
  have l: "xs \<noteq> [] \<Longrightarrow> last xs \<noteq> 61" using assms(3) last_in_set by fastforce
  consider "p = 0" | "p = 1" | "p = 2" using assms(1) by arith
  then show ?thesis
  proof cases
    case 1 with assms l show ?thesis by (auto simp: strip_padding_def)
  next
    case 2 with assms l show ?thesis by (auto simp: strip_padding_def butlast_append)
  next
    case 3
    have r: "replicate p (61::nat) = [61, 61]" using 3 by (simp add: numeral_2_eq_2)
    have "length (xs @ [61, 61::nat]) mod 4 = 0" using assms(2) 3 by simp
    then show ?thesis unfolding r strip_padding_def by (simp add: butlast_append)
  qed
qed

lemma pad_not_in_sextets: "61 \<notin> set (map b64char sx)"
  using b64char_not_pad by auto

lemma filter_ws_btoa:
  "filter (\<lambda>c. \<not> ascii_whitespace c) (map b64char sx @ replicate p 61) =
   map b64char sx @ replicate p 61"
proof -
  have "\<not> ascii_whitespace 61" by (simp add: ascii_whitespace_def)
  then show ?thesis by (simp add: filter_id_conv b64char_not_ws)
qed

lemma length_sextets_not_1: "length (sextets bs) mod 4 \<noteq> 1"
  using length_sextets [of bs] padding_le [of bs] by presburger

lemma valid_sextets: "list_all (\<lambda>v. v < 64) sx \<Longrightarrow> \<not> list_ex (\<lambda>c. b64val c = None) (map b64char sx)"
  by (induction sx) (auto simp: b64val_b64char)

lemma map_sextet_b64char: "list_all (\<lambda>v. v < 64) sx \<Longrightarrow> map sextet (map b64char sx) = sx"
  by (induction sx) (auto simp: sextet_b64char)

lemma atob_btoa_groups:
  assumes "list_all (\<lambda>b. b < 256) bs"
  shows "atob (btoa_groups bs) = Inr bs"
proof -
  let ?sx = "sextets bs"
  have d: "strip_padding (filter (\<lambda>c. \<not> ascii_whitespace c) (btoa_groups bs)) = map b64char ?sx"
    unfolding btoa_groups_sextets filter_ws_btoa
    by (rule strip_padding_pad) (simp_all add: padding_le length_sextets pad_not_in_sextets del: set_map)
  have v: "list_all (\<lambda>v. v < 64) ?sx" using assms by (rule sextets_lt)
  show ?thesis
    unfolding atob_def d Let_def
    using length_sextets_not_1 [of bs] valid_sextets [OF v] map_sextet_b64char [OF v]
      atob_groups_sextets [OF assms]
    by simp
qed

lemma decode_encode: "\<exists>s. encode b = Inr s \<and> decode s = Inr b"
proof -
  have lt: "list_all (\<lambda>b. b < 256) (map unat b)"
    by (induction b) (auto intro: order_less_le_trans [OF unsigned_less])
  then have "\<not> list_ex (\<lambda>c. 255 < c) (map unat b)"
    by (induction b) auto
  then have e: "encode b = Inr (btoa_groups (map unat b))"
    by (simp add: encode_def btoa_def)
  have "map (of_nat :: nat \<Rightarrow> byte) (map unat b) = b"
    by (induction b) auto
  then have "decode (btoa_groups (map unat b)) = Inr b"
    by (simp add: decode_def atob_btoa_groups [OF lt])
  with e show ?thesis by blast
qed

subsection \<open>Typed-array views and samples\<close>

lemma int16_of_bytes:
  "ucast (ucast w :: byte) OR push_bit 8 (ucast (ucast (drop_bit 8 w) :: byte)) = (w :: int16)"
  by (rule bit_word_eqI) (auto simp: bit_simps)

lemma int16_pairs_uint8_view: "int16_pairs (uint8_view ws) = ws"
  by (induction ws) (simp_all add: uint8_view_def int16_of_bytes)

lemma length_uint8_view: "length (uint8_view ws) = 2 * length ws"
  by (induction ws) (simp_all add: uint8_view_def)

lemma int16_view_uint8_view: "int16_view (uint8_view ws) = Inr ws"
  by (simp add: int16_view_def length_uint8_view int16_pairs_uint8_view)

lemma int16_view_odd: "odd (length bytes) \<Longrightarrow> int16_view bytes = Inl RangeError"
  by (simp add: int16_view_def odd_iff_mod_2_eq_one)

lemma length_int16_pairs: "length (int16_pairs bytes) = length bytes div 2"
  by (induction bytes rule: int16_pairs.induct) simp_all

lemma fold_store:
  "m \<le> length cd \<Longrightarrow>
   fold (\<lambda>i cd. if i < length cd then cd[i := f i] else cd) [0..<m] cd = map f [0..<m] @ drop m cd"
proof (induction m)
  case 0
  then show ?case by simp
next
  case (Suc m)
  then have m: "m < length cd" by simp
  have "(map f [0..<m] @ drop m cd)[m := f m] = map f [0..<m] @ (drop m cd)[0 := f m]"
    by (simp add: list_update_append)
  also have "(drop m cd)[0 := f m] = f m # drop (Suc m) cd"
    using m by (simp add: Cons_nth_drop_Suc [symmetric])
  finally show ?case using Suc m by simp
qed

lemma fill_channel_mono:
  "fill_channel ws 1 0 (real (length ws)) (replicate (length ws) 0) =
   map (\<lambda>w. real_of_int (sint w) / 32768) ws"
proof -
  have "fill_channel ws 1 0 (real (length ws)) (replicate (length ws) 0) =
        map (\<lambda>i. real_of_int (sint (ws ! i)) / 32768) [0..<length ws]"
  proof -
    have c: "nat \<lceil>real (length ws)\<rceil> = length ws" by simp
    have "length ws \<le> length (replicate (length ws) (0::real))" by simp
    from fold_store [OF this, of "\<lambda>i. real_of_int (sint (ws ! (i * 1 + 0))) / 32768"]
    show ?thesis unfolding fill_channel_def c by simp
  qed
  also have "\<dots> = map (\<lambda>w. real_of_int (sint w) / 32768) ws"
    by (rule nth_equalityI) simp_all
  finally show ?thesis .
qed

lemma js_truncate_of_nat: "js_truncate (real n) = int n"
  by (simp add: js_truncate_def)

lemma decodeAudioData_mono:
  assumes "ws \<noteq> []" "3000 \<le> rate" "rate \<le> 768000"
  shows "decodeAudioData (uint8_view ws) rate 1 =
         Inr \<lparr>numberOfChannels = 1, buffer_length = length ws, sampleRate = rate,
              channelData = [map (\<lambda>w. real_of_int (sint w) / 32768) ws]\<rparr>"
  using assms
  unfolding decodeAudioData_def int16_view_uint8_view createBuffer_def Let_def
  by (simp add: js_truncate_of_nat fill_channel_mono [simplified])

lemma truncate_bounds:
  assumes "- 32768 \<le> y" "y < 32768"
  shows "- 32768 \<le> js_truncate y" "js_truncate y < 32768" "\<bar>real_of_int (js_truncate y) - y\<bar> < 1"
  using assms unfolding js_truncate_def
  by (auto simp: ceiling_le_iff le_floor_iff floor_less_iff less_ceiling_iff; linarith)+

lemma sample_roundtrip:
  assumes "- 1 \<le> x" "x < 1"
  shows "\<bar>real_of_int (sint (toInt16 (x * 32768))) / 32768 - x\<bar> < 1 / 32768"
proof -
  let ?y = "x * 32768"
  have b: "- 32768 \<le> ?y" "?y < 32768" using assms by simp_all
  have s: "sint (toInt16 ?y) = js_truncate ?y"
    unfolding toInt16_def using truncate_bounds(1,2) [OF b]
    by (simp add: sint_sbintrunc' signed_take_bit_int_eq_self)
  have t: "\<bar>real_of_int (js_truncate ?y) - ?y\<bar> < 1" by (rule truncate_bounds(3) [OF b])
  have "real_of_int (js_truncate ?y) / 32768 - x = (real_of_int (js_truncate ?y) - ?y) / 32768"
    by (simp add: field_simps)
  then have "\<bar>real_of_int (js_truncate ?y) / 32768 - x\<bar> = \<bar>(real_of_int (js_truncate ?y) - ?y) / 32768\<bar>"
    by (simp only:)
  also have "\<dots> = \<bar>real_of_int (js_truncate ?y) - ?y\<bar> / 32768"
    by (simp only: abs_divide abs_numeral)
  also have "\<dots> < 1 / 32768" using t by simp
  finally show ?thesis unfolding s .
qed

lemma createBlob_decode:
  "\<exists>blob. createBlob xs = Inr blob \<and>
     decode (data blob) = Inr (uint8_view (map (\<lambda>x. toInt16 (x * 32768)) xs))"
proof -
  obtain e where "encode (uint8_view (map (\<lambda>x. toInt16 (x * 32768)) xs)) = Inr e"
    and "decode e = Inr (uint8_view (map (\<lambda>x. toInt16 (x * 32768)) xs))"
    using decode_encode by blast
  then show ?thesis by (simp add: createBlob_def)
qed

lemma toInt16_one: "toInt16 (1 * 32768) = (32768 :: int16)"
  by (simp add: toInt16_def js_truncate_def)

lemma uint8_view_one: "uint8_view [32768 :: int16] = [0, 128]"
  by (simp add: uint8_view_def)

lemma encode_one: "encode [0, 128] = Inr [65, 73, 65, 61]"
  by (simp add: encode_def btoa_def b64char_def)

lemma decode_one: "decode [65, 73, 65, 61] = Inr [0, 128]"
  by (simp add: decode_def atob_def strip_padding_def ascii_whitespace_def b64val_def sextet_def)

lemma decodeAudioData_one:
  "decodeAudioData [0, 128] 24000 1 =
   Inr \<lparr>numberOfChannels = 1, buffer_length = 1, sampleRate = 24000, channelData = [[- 1]]\<rparr>"
  using decodeAudioData_mono [of "[32768]" 24000] by (simp add: uint8_view_one)

lemma decode_AA: "decode [65, 65, 61, 61] = Inr [0]"
  by (simp add: decode_def atob_def strip_padding_def ascii_whitespace_def b64val_def sextet_def)

lemma decodeAudioData_odd:
  "odd (length bytes) \<Longrightarrow> decodeAudioData bytes rate numChannels = Inl RangeError"
  by (simp add: decodeAudioData_def int16_view_odd)


lemma decodeAudioData_rate_range:
  "rate < 3000 \<or> 768000 < rate \<Longrightarrow> even (length bytes) \<Longrightarrow>
   decodeAudioData bytes rate numChannels = Inl NotSupportedError"
  by (auto simp: decodeAudioData_def int16_view_def createBuffer_def Let_def)

section \<open>Facts about teardown and playback\<close>

subsection \<open>Each guarded block as one update\<close>

lemma clear_screen_interval_nf:
  "clear_screen_interval s =
   s\<lparr>intervals := cleared (screenIntervalRef s) (intervals s), screenIntervalRef := None\<rparr>"
  by (cases "screenIntervalRef s") (simp_all add: clear_screen_interval_def cleared_def)


lemma stop_screen_stream_nf:
  "stop_screen_stream s =
   s\<lparr>liveStreams := liveStreams s - set_option (screenStreamRef s), screenStreamRef := None\<rparr>"
  by (cases "screenStreamRef s") (simp_all add: stop_screen_stream_def)

lemma detach_video_nf:
  "detach_video s = s\<lparr>video_srcObject := (if videoRef s then None else video_srcObject s)\<rparr>"
  by (simp add: detach_video_def)

lemma disconnect_processor_nf:
  "disconnect_processor s =
   s\<lparr>connectedNodes := connectedNodes s - set_option (processorRef s), processorRef := None\<rparr>"
  by (cases "processorRef s") (simp_all add: disconnect_processor_def)

lemma disconnect_source_nf:
  "disconnect_source s =
   s\<lparr>connectedNodes := connectedNodes s - set_option (sourceRef s), sourceRef := None\<rparr>"
  by (cases "sourceRef s") (simp_all add: disconnect_source_def)

lemma stop_microphone_nf:
  "stop_microphone s =
   s\<lparr>liveStreams := liveStreams s - set_option (streamRef s), streamRef := None\<rparr>"
  by (cases "streamRef s") (simp_all add: stop_microphone_def)

lemma close_output_context_nf:
  "close_output_context s =
   s\<lparr>openContexts := openContexts s - set_option (audioContextRef s), audioContextRef := None\<rparr>"
  by (cases "audioContextRef s") (simp_all add: close_output_context_def)

lemma close_input_context_nf:
  "close_input_context s =
   s\<lparr>openContexts := openContexts s - set_option (inputAudioContextRef s),
     inputAudioContextRef := None\<rparr>"
  by (cases "inputAudioContextRef s") (simp_all add: close_input_context_def)

lemma close_swallowing_nf:
  "close_swallowing p s = s\<lparr>transports := closed_transports (Some p) (transports s)\<rparr>"
  by (simp add: close_swallowing_def then_close_def closed_transports_def
      split: option.splits transport_state.splits)

lemma close_session_nf:
  "close_session s =
   s\<lparr>transports := closed_transports (sessionPromiseRef s) (transports s),
     sessionPromiseRef := None\<rparr>"
  by (cases "sessionPromiseRef s")
     (simp_all add: close_session_def close_swallowing_nf, simp add: closed_transports_def)

lemmas teardown_nf = clear_screen_interval_nf stop_screen_stream_nf detach_video_nf
  disconnect_processor_nf disconnect_source_nf stop_microphone_nf close_output_context_nf
  close_input_context_nf close_session_nf

subsection \<open>The fields after each block\<close>

lemma clear_screen_interval_sel [simp]:
  "isActive (clear_screen_interval s) = isActive s"
  "status (clear_screen_interval s) = status s"
  "isMuted (clear_screen_interval s) = isMuted s"
  "isScreenSharing (clear_screen_interval s) = isScreenSharing s"
  "volumeLevel (clear_screen_interval s) = volumeLevel s"
  "audioContextRef (clear_screen_interval s) = audioContextRef s"
  "inputAudioContextRef (clear_screen_interval s) = inputAudioContextRef s"
  "streamRef (clear_screen_interval s) = streamRef s"
  "processorRef (clear_screen_interval s) = processorRef s"
  "sourceRef (clear_screen_interval s) = sourceRef s"
  "screenStreamRef (clear_screen_interval s) = screenStreamRef s"
  "videoRef (clear_screen_interval s) = videoRef s"
  "canvasRef (clear_screen_interval s) = canvasRef s"
  "video_srcObject (clear_screen_interval s) = video_srcObject s"
  "screenIntervalRef (clear_screen_interval s) = None"
  "sessionPromiseRef (clear_screen_interval s) = sessionPromiseRef s"
  "aiRef (clear_screen_interval s) = aiRef s"
  "nextStartTimeRef (clear_screen_interval s) = nextStartTimeRef s"
  "sourcesRef (clear_screen_interval s) = sourcesRef s"
  "nextHandle (clear_screen_interval s) = nextHandle s"
  "openContexts (clear_screen_interval s) = openContexts s"
  "liveStreams (clear_screen_interval s) = liveStreams s"
  "connectedNodes (clear_screen_interval s) = connectedNodes s"
  "intervals (clear_screen_interval s) = cleared (screenIntervalRef s) (intervals s)"
  "onendedHandlers (clear_screen_interval s) = onendedHandlers s"
  "transports (clear_screen_interval s) = transports s"
  "liveCallbacks (clear_screen_interval s) = liveCallbacks s"
  "nodes (clear_screen_interval s) = nodes s"
  "sent (clear_screen_interval s) = sent s"
  by (simp_all add: clear_screen_interval_nf)

lemma stop_screen_stream_sel [simp]:
  "isActive (stop_screen_stream s) = isActive s"
  "status (stop_screen_stream s) = status s"
  "isMuted (stop_screen_stream s) = isMuted s"
  "isScreenSharing (stop_screen_stream s) = isScreenSharing s"
  "volumeLevel (stop_screen_stream s) = volumeLevel s"
  "audioContextRef (stop_screen_stream s) = audioContextRef s"
  "inputAudioContextRef (stop_screen_stream s) = inputAudioContextRef s"
  "streamRef (stop_screen_stream s) = streamRef s"
  "processorRef (stop_screen_stream s) = processorRef s"
  "sourceRef (stop_screen_stream s) = sourceRef s"
  "screenStreamRef (stop_screen_stream s) = None"
  "videoRef (stop_screen_stream s) = videoRef s"
  "canvasRef (stop_screen_stream s) = canvasRef s"
  "video_srcObject (stop_screen_stream s) = video_srcObject s"
  "screenIntervalRef (stop_screen_stream s) = screenIntervalRef s"
  "sessionPromiseRef (stop_screen_stream s) = sessionPromiseRef s"
  "aiRef (stop_screen_stream s) = aiRef s"
  "nextStartTimeRef (stop_screen_stream s) = nextStartTimeRef s"
  "sourcesRef (stop_screen_stream s) = sourcesRef s"
  "nextHandle (stop_screen_stream s) = nextHandle s"
  "openContexts (stop_screen_stream s) = openContexts s"
  "liveStreams (stop_screen_stream s) = liveStreams s - set_option (screenStreamRef s)"
  "connectedNodes (stop_screen_stream s) = connectedNodes s"
  "intervals (stop_screen_stream s) = intervals s"
  "onendedHandlers (stop_screen_stream s) = onendedHandlers s"
  "transports (stop_screen_stream s) = transports s"
  "liveCallbacks (stop_screen_stream s) = liveCallbacks s"
  "nodes (stop_screen_stream s) = nodes s"
  "sent (stop_screen_stream s) = sent s"
  by (simp_all add: stop_screen_stream_nf)

lemma detach_video_sel [simp]:
  "isActive (detach_video s) = isActive s"
  "status (detach_video s) = status s"
  "isMuted (detach_video s) = isMuted s"
  "isScreenSharing (detach_video s) = isScreenSharing s"
  "volumeLevel (detach_video s) = volumeLevel s"
  "audioContextRef (detach_video s) = audioContextRef s"
  "inputAudioContextRef (detach_video s) = inputAudioContextRef s"
  "streamRef (detach_video s) = streamRef s"
  "processorRef (detach_video s) = processorRef s"
  "sourceRef (detach_video s) = sourceRef s"
  "screenStreamRef (detach_video s) = screenStreamRef s"
  "videoRef (detach_video s) = videoRef s"
  "canvasRef (detach_video s) = canvasRef s"
  "video_srcObject (detach_video s) = (if videoRef s then None else video_srcObject s)"
  "screenIntervalRef (detach_video s) = screenIntervalRef s"
  "sessionPromiseRef (detach_video s) = sessionPromiseRef s"
  "aiRef (detach_video s) = aiRef s"
  "nextStartTimeRef (detach_video s) = nextStartTimeRef s"
  "sourcesRef (detach_video s) = sourcesRef s"
  "nextHandle (detach_video s) = nextHandle s"
  "openContexts (detach_video s) = openContexts s"
  "liveStreams (detach_video s) = liveStreams s"
  "connectedNodes (detach_video s) = connectedNodes s"
  "intervals (detach_video s) = intervals s"
  "onendedHandlers (detach_video s) = onendedHandlers s"
  "transports (detach_video s) = transports s"
  "liveCallbacks (detach_video s) = liveCallbacks s"
  "nodes (detach_video s) = nodes s"
  "sent (detach_video s) = sent s"
  by (simp_all add: detach_video_nf)

lemma disconnect_processor_sel [simp]:
  "isActive (disconnect_processor s) = isActive s"
  "status (disconnect_processor s) = status s"
  "isMuted (disconnect_processor s) = isMuted s"
  "isScreenSharing (disconnect_processor s) = isScreenSharing s"
  "volumeLevel (disconnect_processor s) = volumeLevel s"
  "audioContextRef (disconnect_processor s) = audioContextRef s"
  "inputAudioContextRef (disconnect_processor s) = inputAudioContextRef s"
  "streamRef (disconnect_processor s) = streamRef s"
  "processorRef (disconnect_processor s) = None"
  "sourceRef (disconnect_processor s) = sourceRef s"
  "screenStreamRef (disconnect_processor s) = screenStreamRef s"
  "videoRef (disconnect_processor s) = videoRef s"
  "canvasRef (disconnect_processor s) = canvasRef s"
  "video_srcObject (disconnect_processor s) = video_srcObject s"
  "screenIntervalRef (disconnect_processor s) = screenIntervalRef s"
  "sessionPromiseRef (disconnect_processor s) = sessionPromiseRef s"
  "aiRef (disconnect_processor s) = aiRef s"
  "nextStartTimeRef (disconnect_processor s) = nextStartTimeRef s"
  "sourcesRef (disconnect_processor s) = sourcesRef s"
  "nextHandle (disconnect_processor s) = nextHandle s"
  "openContexts (disconnect_processor s) = openContexts s"
  "liveStreams (disconnect_processor s) = liveStreams s"
  "connectedNodes (disconnect_processor s) = connectedNodes s - set_option (processorRef s)"
  "intervals (disconnect_processor s) = intervals s"
  "onendedHandlers (disconnect_processor s) = onendedHandlers s"
  "transports (disconnect_processor s) = transports s"
  "liveCallbacks (disconnect_processor s) = liveCallbacks s"
  "nodes (disconnect_processor s) = nodes s"
  "sent (disconnect_processor s) = sent s"
  by (simp_all add: disconnect_processor_nf)

lemma disconnect_source_sel [simp]:
  "isActive (disconnect_source s) = isActive s"
  "status (disconnect_source s) = status s"
  "isMuted (disconnect_source s) = isMuted s"
  "isScreenSharing (disconnect_source s) = isScreenSharing s"
  "volumeLevel (disconnect_source s) = volumeLevel s"
  "audioContextRef (disconnect_source s) = audioContextRef s"
  "inputAudioContextRef (disconnect_source s) = inputAudioContextRef s"
  "streamRef (disconnect_source s) = streamRef s"
  "processorRef (disconnect_source s) = processorRef s"
  "sourceRef (disconnect_source s) = None"
  "screenStreamRef (disconnect_source s) = screenStreamRef s"
  "videoRef (disconnect_source s) = videoRef s"
  "canvasRef (disconnect_source s) = canvasRef s"
  "video_srcObject (disconnect_source s) = video_srcObject s"
  "screenIntervalRef (disconnect_source s) = screenIntervalRef s"
  "sessionPromiseRef (disconnect_source s) = sessionPromiseRef s"
  "aiRef (disconnect_source s) = aiRef s"
  "nextStartTimeRef (disconnect_source s) = nextStartTimeRef s"
  "sourcesRef (disconnect_source s) = sourcesRef s"
  "nextHandle (disconnect_source s) = nextHandle s"
  "openContexts (disconnect_source s) = openContexts s"
  "liveStreams (disconnect_source s) = liveStreams s"
  "connectedNodes (disconnect_source s) = connectedNodes s - set_option (sourceRef s)"
  "intervals (disconnect_source s) = intervals s"
  "onendedHandlers (disconnect_source s) = onendedHandlers s"
  "transports (disconnect_source s) = transports s"
  "liveCallbacks (disconnect_source s) = liveCallbacks s"
  "nodes (disconnect_source s) = nodes s"
  "sent (disconnect_source s) = sent s"
  by (simp_all add: disconnect_source_nf)

lemma stop_microphone_sel [simp]:
  "isActive (stop_microphone s) = isActive s"
  "status (stop_microphone s) = status s"
  "isMuted (stop_microphone s) = isMuted s"
  "isScreenSharing (stop_microphone s) = isScreenSharing s"
  "volumeLevel (stop_microphone s) = volumeLevel s"
  "audioContextRef (stop_microphone s) = audioContextRef s"
  "inputAudioContextRef (stop_microphone s) = inputAudioContextRef s"
  "streamRef (stop_microphone s) = None"
  "processorRef (stop_microphone s) = processorRef s"
  "sourceRef (stop_microphone s) = sourceRef s"
  "screenStreamRef (stop_microphone s) = screenStreamRef s"
  "videoRef (stop_microphone s) = videoRef s"
  "canvasRef (stop_microphone s) = canvasRef s"
  "video_srcObject (stop_microphone s) = video_srcObject s"
  "screenIntervalRef (stop_microphone s) = screenIntervalRef s"
  "sessionPromiseRef (stop_microphone s) = sessionPromiseRef s"
  "aiRef (stop_microphone s) = aiRef s"
  "nextStartTimeRef (stop_microphone s) = nextStartTimeRef s"
  "sourcesRef (stop_microphone s) = sourcesRef s"
  "nextHandle (stop_microphone s) = nextHandle s"
  "openContexts (stop_microphone s) = openContexts s"
  "liveStreams (stop_microphone s) = liveStreams s - set_option (streamRef s)"
  "connectedNodes (stop_microphone s) = connectedNodes s"
  "intervals (stop_microphone s) = intervals s"
  "onendedHandlers (stop_microphone s) = onendedHandlers s"
  "transports (stop_microphone s) = transports s"
  "liveCallbacks (stop_microphone s) = liveCallbacks s"
  "nodes (stop_microphone s) = nodes s"
  "sent (stop_microphone s) = sent s"
  by (simp_all add: stop_microphone_nf)

lemma close_output_context_sel [simp]:
  "isActive (close_output_context s) = isActive s"
  "status (close_output_context s) = status s"
  "isMuted (close_output_context s) = isMuted s"
  "isScreenSharing (close_output_context s) = isScreenSharing s"
  "volumeLevel (close_output_context s) = volumeLevel s"
  "audioContextRef (close_output_context s) = None"
  "inputAudioContextRef (close_output_context s) = inputAudioContextRef s"
  "streamRef (close_output_context s) = streamRef s"
  "processorRef (close_output_context s) = processorRef s"
  "sourceRef (close_output_context s) = sourceRef s"
  "screenStreamRef (close_output_context s) = screenStreamRef s"
  "videoRef (close_output_context s) = videoRef s"
  "canvasRef (close_output_context s) = canvasRef s"
  "video_srcObject (close_output_context s) = video_srcObject s"
  "screenIntervalRef (close_output_context s) = screenIntervalRef s"
  "sessionPromiseRef (close_output_context s) = sessionPromiseRef s"
  "aiRef (close_output_context s) = aiRef s"
  "nextStartTimeRef (close_output_context s) = nextStartTimeRef s"
  "sourcesRef (close_output_context s) = sourcesRef s"
  "nextHandle (close_output_context s) = nextHandle s"
  "openContexts (close_output_context s) = openContexts s - set_option (audioContextRef s)"
  "liveStreams (close_output_context s) = liveStreams s"
  "connectedNodes (close_output_context s) = connectedNodes s"
  "intervals (close_output_context s) = intervals s"
  "onendedHandlers (close_output_context s) = onendedHandlers s"
  "transports (close_output_context s) = transports s"
  "liveCallbacks (close_output_context s) = liveCallbacks s"
  "nodes (close_output_context s) = nodes s"
  "sent (close_output_context s) = sent s"
  by (simp_all add: close_output_context_nf)

lemma close_input_context_sel [simp]:
  "isActive (close_input_context s) = isActive s"
  "status (close_input_context s) = status s"
  "isMuted (close_input_context s) = isMuted s"
  "isScreenSharing (close_input_context s) = isScreenSharing s"
  "volumeLevel (close_input_context s) = volumeLevel s"
  "audioContextRef (close_input_context s) = audioContextRef s"
  "inputAudioContextRef (close_input_context s) = None"
  "streamRef (close_input_context s) = streamRef s"
  "processorRef (close_input_context s) = processorRef s"
  "sourceRef (close_input_context s) = sourceRef s"
  "screenStreamRef (close_input_context s) = screenStreamRef s"
  "videoRef (close_input_context s) = videoRef s"
  "canvasRef (close_input_context s) = canvasRef s"
  "video_srcObject (close_input_context s) = video_srcObject s"
  "screenIntervalRef (close_input_context s) = screenIntervalRef s"
  "sessionPromiseRef (close_input_context s) = sessionPromiseRef s"
  "aiRef (close_input_context s) = aiRef s"
  "nextStartTimeRef (close_input_context s) = nextStartTimeRef s"
  "sourcesRef (close_input_context s) = sourcesRef s"
  "nextHandle (close_input_context s) = nextHandle s"
  "openContexts (close_input_context s) = openContexts s - set_option (inputAudioContextRef s)"
  "liveStreams (close_input_context s) = liveStreams s"
  "connectedNodes (close_input_context s) = connectedNodes s"
  "intervals (close_input_context s) = intervals s"
  "onendedHandlers (close_input_context s) = onendedHandlers s"
  "transports (close_input_context s) = transports s"
  "liveCallbacks (close_input_context s) = liveCallbacks s"
  "nodes (close_input_context s) = nodes s"
  "sent (close_input_context s) = sent s"
  by (simp_all add: close_input_context_nf)

lemma close_session_sel [simp]:
  "isActive (close_session s) = isActive s"
  "status (close_session s) = status s"
  "isMuted (close_session s) = isMuted s"
  "isScreenSharing (close_session s) = isScreenSharing s"
  "volumeLevel (close_session s) = volumeLevel s"
  "audioContextRef (close_session s) = audioContextRef s"
  "inputAudioContextRef (close_session s) = inputAudioContextRef s"
  "streamRef (close_session s) = streamRef s"
  "processorRef (close_session s) = processorRef s"
  "sourceRef (close_session s) = sourceRef s"
  "screenStreamRef (close_session s) = screenStreamRef s"
  "videoRef (close_session s) = videoRef s"
  "canvasRef (close_session s) = canvasRef s"
  "video_srcObject (close_session s) = video_srcObject s"
  "screenIntervalRef (close_session s) = screenIntervalRef s"
  "sessionPromiseRef (close_session s) = None"
  "aiRef (close_session s) = aiRef s"
  "nextStartTimeRef (close_session s) = nextStartTimeRef s"
  "sourcesRef (close_session s) = sourcesRef s"
  "nextHandle (close_session s) = nextHandle s"
  "openContexts (close_session s) = openContexts s"
  "liveStreams (close_session s) = liveStreams s"
  "connectedNodes (close_session s) = connectedNodes s"
  "intervals (close_session s) = intervals s"
  "onendedHandlers (close_session s) = onendedHandlers s"
  "transports (close_session s) = closed_transports (sessionPromiseRef s) (transports s)"
  "liveCallbacks (close_session s) = liveCallbacks s"
  "nodes (close_session s) = nodes s"
  "sent (close_session s) = sent s"
  by (simp_all add: close_session_nf)

lemma stopScreenShare_sel [simp]:
  "isActive (stopScreenShare s) = isActive s"
  "status (stopScreenShare s) = status s"
  "isMuted (stopScreenShare s) = isMuted s"
  "isScreenSharing (stopScreenShare s) = False"
  "volumeLevel (stopScreenShare s) = volumeLevel s"
  "audioContextRef (stopScreenShare s) = audioContextRef s"
  "inputAudioContextRef (stopScreenShare s) = inputAudioContextRef s"
  "streamRef (stopScreenShare s) = streamRef s"
  "processorRef (stopScreenShare s) = processorRef s"
  "sourceRef (stopScreenShare s) = sourceRef s"
  "screenStreamRef (stopScreenShare s) = None"
  "videoRef (stopScreenShare s) = videoRef s"
  "canvasRef (stopScreenShare s) = canvasRef s"
  "video_srcObject (stopScreenShare s) = (if videoRef s then None else video_srcObject s)"
  "screenIntervalRef (stopScreenShare s) = None"
  "sessionPromiseRef (stopScreenShare s) = sessionPromiseRef s"
  "aiRef (stopScreenShare s) = aiRef s"
  "nextStartTimeRef (stopScreenShare s) = nextStartTimeRef s"
  "sourcesRef (stopScreenShare s) = sourcesRef s"
  "nextHandle (stopScreenShare s) = nextHandle s"
  "openContexts (stopScreenShare s) = openContexts s"
  "liveStreams (stopScreenShare s) = liveStreams s - set_option (screenStreamRef s)"
  "connectedNodes (stopScreenShare s) = connectedNodes s"
  "intervals (stopScreenShare s) = cleared (screenIntervalRef s) (intervals s)"
  "onendedHandlers (stopScreenShare s) = onendedHandlers s"
  "transports (stopScreenShare s) = transports s"
  "liveCallbacks (stopScreenShare s) = liveCallbacks s"
  "nodes (stopScreenShare s) = nodes s"
  "sent (stopScreenShare s) = sent s"
  by (simp_all add: stopScreenShare_def)

lemma stopSession_sel [simp]:
  "isActive (stopSession s) = False"
  "status (stopSession s) = Idle"
  "isMuted (stopSession s) = isMuted s"
  "isScreenSharing (stopSession s) = False"
  "volumeLevel (stopSession s) = 0"
  "audioContextRef (stopSession s) = None"
  "inputAudioContextRef (stopSession s) = None"
  "streamRef (stopSession s) = None"
  "processorRef (stopSession s) = None"
  "sourceRef (stopSession s) = None"
  "screenStreamRef (stopSession s) = None"
  "videoRef (stopSession s) = videoRef s"
  "canvasRef (stopSession s) = canvasRef s"
  "video_srcObject (stopSession s) = (if videoRef s then None else video_srcObject s)"
  "screenIntervalRef (stopSession s) = None"
  "sessionPromiseRef (stopSession s) = None"
  "aiRef (stopSession s) = aiRef s"
  "nextStartTimeRef (stopSession s) = 0"
  "sourcesRef (stopSession s) = sourcesRef s"
  "nextHandle (stopSession s) = nextHandle s"
  "openContexts (stopSession s) = openContexts s - set_option (audioContextRef s) - set_option (inputAudioContextRef s)"
  "liveStreams (stopSession s) = liveStreams s - set_option (screenStreamRef s) - set_option (streamRef s)"
  "connectedNodes (stopSession s) = connectedNodes s - set_option (processorRef s) - set_option (sourceRef s)"
  "intervals (stopSession s) = cleared (screenIntervalRef s) (intervals s)"
  "onendedHandlers (stopSession s) = onendedHandlers s"
  "transports (stopSession s) = closed_transports (sessionPromiseRef s) (transports s)"
  "liveCallbacks (stopSession s) = liveCallbacks s"
  "nodes (stopSession s) = nodes s"
  "sent (stopSession s) = sent s"
  by (simp_all add: stopSession_def)

lemma stopSession_fixed:
  assumes "status s = Idle" "\<not> isActive s" "nextStartTimeRef s = 0" "volumeLevel s = 0"
    "\<not> isScreenSharing s" "videoRef s \<Longrightarrow> video_srcObject s = None"
    "screenIntervalRef s = None" "screenStreamRef s = None" "processorRef s = None"
    "sourceRef s = None" "streamRef s = None" "audioContextRef s = None"
    "inputAudioContextRef s = None" "sessionPromiseRef s = None"
  shows "stopSession s = s"
  by (rule session.equality) (use assms in \<open>simp_all add: cleared_def closed_transports_def\<close>)

lemma stopSession_twice: "stopSession (stopSession s) = stopSession s"
  by (rule stopSession_fixed) simp_all

subsection \<open>Playback and interruption\<close>

lemma enqueue_nodes:
  "nodes (enqueue now frame s) =
   nodes s @ [\<lparr>node_buffer = frame, startedAt = Some (max (nextStartTimeRef s) now), stopped = False\<rparr>]"
  by (simp add: enqueue_def schedule_def clock_sync_def Let_def)

lemma enqueue_clock:
  "nextStartTimeRef (enqueue now frame s) = max (nextStartTimeRef s) now + duration frame"
  by (simp add: enqueue_def schedule_def clock_sync_def Let_def)

lemma enqueue_live: "length (nodes s) \<in> set (sourcesRef (enqueue now frame s))"
  by (simp add: enqueue_def schedule_def clock_sync_def Let_def)

lemma nodes_enqueue_all:
  "nodes (enqueue_all fs s) = nodes s @ scheduled (nextStartTimeRef s) fs"
  by (induction fs arbitrary: s) (auto simp: enqueue_nodes enqueue_clock)

lemma scheduled_back_to_back:
  "clock_behind t fs \<Longrightarrow>
   map startedAt (scheduled t fs) = map Some (back_to_back t (map (\<lambda>f. duration (snd f)) fs))"
  by (induction t fs rule: scheduled.induct) (simp_all add: max_absorb1)

lemma enqueue_all_starts:
  assumes "clock_behind (max (nextStartTimeRef s) now + duration frame) rest"
  shows "map startedAt (drop (length (nodes s)) (nodes (enqueue_all ((now, frame) # rest) s))) =
         map Some (back_to_back (max (nextStartTimeRef s) now) (map duration (frame # map snd rest)))"
  using scheduled_back_to_back [OF assms]
  by (simp add: nodes_enqueue_all enqueue_nodes enqueue_clock comp_def)

lemma onmessage_enqueue:
  assumes "inlineData m = Some a" "a \<noteq> []" "decode a = Inr bytes"
    "decodeAudioData bytes 24000 1 = Inr frame" "\<not> interrupted m"
  shows "onmessage now m s = (enqueue now frame s, None)"
  using assms by (simp add: onmessage_def play_audio_def enqueue_def)

lemma length_fold_try_stop: "length (fold try_stop srcs ns) = length ns"
  by (induction srcs arbitrary: ns) (auto simp: try_stop_def node_stop_def)

lemma try_stop_nth:
  "i < length ns \<Longrightarrow>
   try_stop src ns ! i =
     (if i = src \<and> startedAt (ns ! i) \<noteq> None then (ns ! i)\<lparr>stopped := True\<rparr> else ns ! i)"
  by (auto simp: try_stop_def node_stop_def)

lemma length_try_stop: "length (try_stop src ns) = length ns"
  by (auto simp: try_stop_def node_stop_def)

lemma fold_try_stop_nth:
  "i < length ns \<Longrightarrow>
   fold try_stop srcs ns ! i =
     (if i \<in> set srcs \<and> startedAt (ns ! i) \<noteq> None then (ns ! i)\<lparr>stopped := True\<rparr> else ns ! i)"
proof (induction srcs arbitrary: ns)
  case Nil
  then show ?case by simp
next
  case (Cons src srcs)
  have "i < length (try_stop src ns)" using Cons.prems by (simp add: length_try_stop)
  from Cons.IH [OF this] show ?case
    using Cons.prems by (auto simp: try_stop_nth)
qed

lemma interrupt_stops:
  assumes "live_started s" "src \<in> set (sourcesRef s)"
  shows "stopped (nodes (interrupt s) ! src)"
proof -
  from assms have "src < length (nodes s)" "startedAt (nodes s ! src) \<noteq> None"
    by (auto simp: live_started_def list_all_iff)
  with assms(2) show ?thesis by (simp add: interrupt_def fold_try_stop_nth)
qed

lemma interrupt_keeps_stopped:
  "i < length (nodes s) \<Longrightarrow> stopped (nodes s ! i) \<Longrightarrow> stopped (nodes (interrupt s) ! i)"
  by (simp add: interrupt_def fold_try_stop_nth)

lemma interrupt_empty:
  "sourcesRef s = [] \<Longrightarrow> nextStartTimeRef s = 0 \<Longrightarrow> interrupt s = s"
  by (simp add: interrupt_def)

lemma onmessage_interrupted:
  "inlineData m = None \<Longrightarrow> interrupted m \<Longrightarrow> onmessage now m s = (interrupt s, None)"
  by (simp add: onmessage_def play_audio_def)

lemma live_started_enqueue: "live_started s \<Longrightarrow> live_started (enqueue now frame s)"
  by (auto simp: live_started_def enqueue_def schedule_def clock_sync_def Let_def list_all_iff nth_append)

lemma live_started_interrupt: "live_started (interrupt s)"
  by (simp add: live_started_def interrupt_def)

lemma live_started_ended: "live_started s \<Longrightarrow> live_started (source_ended src s)"
  by (auto simp: live_started_def source_ended_def list_all_iff)

lemma live_started_mounted: "live_started mounted_session"
  by (simp add: live_started_def mounted_session_def)


subsection \<open>The states of the concrete run\<close>

lemma connecting_session_eq:
  "connecting_session =
     mounted_session\<lparr>status := Connecting, audioContextRef := Some 2, inputAudioContextRef := Some 1,
       streamRef := Some 3, sessionPromiseRef := Some 4, nextHandle := 5, openContexts := {2, 1},
       liveStreams := {3}, transports := [4 \<mapsto> Pending], liveCallbacks := Some start_env\<rparr>"
  by (simp add: connecting_session_def startSession_def mounted_session_def start_env_def Let_def)

lemma connected_session_eq:
  "connected_session =
     mounted_session\<lparr>isActive := True, status := Connected, audioContextRef := Some 2,
       inputAudioContextRef := Some 1, streamRef := Some 3, processorRef := Some 6,
       sourceRef := Some 5, sessionPromiseRef := Some 4, nextHandle := 7, openContexts := {2, 1},
       liveStreams := {3}, connectedNodes := {6, 5}, transports := [4 \<mapsto> Open],
       liveCallbacks := Some start_env\<rparr>"
  by (simp add: connected_session_def connecting_session_eq onopen_def mounted_session_def start_env_def Let_def)

lemma sharing_session_eq:
  "sharing_session =
     mounted_session\<lparr>isActive := True, status := Connected, isScreenSharing := True,
       audioContextRef := Some 2,
       inputAudioContextRef := Some 1, streamRef := Some 3, processorRef := Some 6,
       sourceRef := Some 5, screenStreamRef := Some 7, video_srcObject := Some 7,
       screenIntervalRef := Some 8, sessionPromiseRef := Some 4, nextHandle := 9,
       openContexts := {2, 1},
       liveStreams := {7, 3}, connectedNodes := {6, 5}, intervals := [8 \<mapsto> 1000],
       onendedHandlers := {7}, transports := [4 \<mapsto> Open],
       liveCallbacks := Some start_env\<rparr>"
  by (simp add: sharing_session_def connected_session_eq startScreenShare_def mounted_session_def Let_def)

lemma failed_session_eq:
  "failed_session =
     mounted_session\<lparr>status := Error, audioContextRef := Some 2, inputAudioContextRef := Some 1,
       nextHandle := 3, openContexts := {2, 1}\<rparr>"
  by (simp add: failed_session_def startSession_def mounted_session_def Let_def)

lemmas run_states = connecting_session_eq connected_session_eq sharing_session_eq failed_session_eq

lemma playing_session_eq:
  "playing_session =
     mounted_session\<lparr>nextStartTimeRef := 3 / 2, sourcesRef := [0, 1],
       nodes := [\<lparr>node_buffer = one_second, startedAt = Some 0, stopped = False\<rparr>,
                 \<lparr>node_buffer = half_second, startedAt = Some 1, stopped = False\<rparr>]\<rparr>"
  by (simp add: playing_session_def enqueue_def schedule_def clock_sync_def Let_def
      mounted_session_def duration_def one_second_def half_second_def)

lemma decode_two_frames: "decode [65, 65, 65, 65, 65, 65, 61, 61] = Inr [0, 0, 0, 0]"
  by (simp add: decode_def atob_def strip_padding_def ascii_whitespace_def b64val_def sextet_def)

lemma decodeAudioData_two_frames: "decodeAudioData [0, 0, 0, 0] 24000 1 = Inr two_frames"
  using decodeAudioData_mono [of "[0, 0]" 24000] by (simp add: uint8_view_def two_frames_def)

subsection \<open>Further facts about the handlers\<close>

lemma createBlob_total: "\<exists>pcmBlob. createBlob inputData = Inr pcmBlob"
  using createBlob_decode by blast

lemma stopSession_mounted: "stopSession mounted_session = mounted_session"
  by (rule stopSession_fixed) (simp_all add: mounted_session_def)

lemma closed_transports_not_open:
  "closed_transports (Some p) m p \<noteq> Some Pending \<and> closed_transports (Some p) m p \<noteq> Some Open"
  by (auto simp: closed_transports_def)

lemma active_when_connected_handlers:
  "active_when_connected mounted_session"
  "active_when_connected (startSession mic c s) = (\<not> aiRef s \<longrightarrow> active_when_connected s)"
  "active_when_connected (onopen env s)"
  "active_when_connected (stopSession s)"
  "active_when_connected (onclose s)"
  "active_when_connected (onerror s)"
  "active_when_connected (toggleMute s) = active_when_connected s"
  "active_when_connected (stopScreenShare s) = active_when_connected s"
  by (auto simp: active_when_connected_def mounted_session_def startSession_def onopen_def
      onclose_def onerror_def toggleMute_def Let_def split: sum.splits option.splits)

section \<open>The claims of the specification\<close>

subsection \<open>Audio playback scheduler\<close>

text \<open>
  C1. Every enqueue starts the new source at \<open>max nextStartTime now\<close>, where \<open>now\<close> is
  the device clock, puts it into the live set and advances \<open>nextStartTime\<close> to that
  start plus the duration of the buffer. For frames enqueued one after the other with
  the device clock behind \<open>nextStartTime\<close> at every later arrival, the start times are
  the first start and then each previous start plus the previous duration. Buffers of
  1 and 1/2 seconds enqueued at device time 0 from the clock 0 leave the clock at 3/2.
  A message whose audio payload decodes to \<open>frame\<close> is handled by this enqueue. Times
  are reals; each sum above is the very addition that the handler performs.
\<close>

theorem playback_back_to_back:
  "nodes (enqueue now frame s) =
     nodes s @ [\<lparr>node_buffer = frame, startedAt = Some (max (nextStartTimeRef s) now),
                 stopped = False\<rparr>] \<and>
   length (nodes s) \<in> set (sourcesRef (enqueue now frame s)) \<and>
   nextStartTimeRef (enqueue now frame s) = max (nextStartTimeRef s) now + duration frame \<and>
   (clock_behind (max (nextStartTimeRef s) now + duration frame) rest \<longrightarrow>
      map startedAt (drop (length (nodes s)) (nodes (enqueue_all ((now, frame) # rest) s))) =
        map Some (back_to_back (max (nextStartTimeRef s) now)
                    (map duration (frame # map snd rest)))) \<and>
   (nextStartTimeRef s = 0 \<and> duration b1 = 1 \<and> duration b2 = 1 / 2 \<longrightarrow>
      nextStartTimeRef (enqueue 0 b2 (enqueue 0 b1 s)) = 3 / 2) \<and>
   (inlineData m = Some a \<and> a \<noteq> [] \<and> decode a = Inr bytes \<and>
      decodeAudioData bytes 24000 1 = Inr frame \<and> \<not> interrupted m \<longrightarrow>
      onmessage now m s = (enqueue now frame s, None))"
proof -
  have "nextStartTimeRef (enqueue 0 b2 (enqueue 0 b1 s)) = 3 / 2"
    if "nextStartTimeRef s = 0" "duration b1 = 1" "duration b2 = 1 / 2"
    using that by (simp add: enqueue_clock)
  then show ?thesis
    using enqueue_all_starts [of s now frame rest] onmessage_enqueue [of m a bytes frame now s]
    by (simp add: enqueue_nodes enqueue_live enqueue_clock)
qed

text \<open>
  C1 on the mounted component: three frames arriving at the device times 0, 1/24000 and
  0, the two buffers of 1 and 1/2 seconds, and the message \<^verbatim>\<open>AAAAAA==\<close>.
\<close>

theorem playback_back_to_back_witness:
  "clock_behind (max (nextStartTimeRef mounted_session) 0 + duration two_frames)
     [(1 / 24000, two_frames), (0, one_second)] \<and>
   map startedAt (nodes (enqueue_all [(0, two_frames), (1 / 24000, two_frames), (0, one_second)]
                           mounted_session)) =
     [Some 0, Some (1 / 12000), Some (1 / 6000)] \<and>
   nextStartTimeRef mounted_session = 0 \<and> duration one_second = 1 \<and> duration half_second = 1 / 2 \<and>
   nextStartTimeRef (enqueue 0 half_second (enqueue 0 one_second mounted_session)) = 3 / 2 \<and>
   inlineData two_frames_message = Some [65, 65, 65, 65, 65, 65, 61, 61] \<and>
   decode [65, 65, 65, 65, 65, 65, 61, 61] = Inr [0, 0, 0, 0] \<and>
   decodeAudioData [0, 0, 0, 0] 24000 1 = Inr two_frames \<and>
   \<not> interrupted two_frames_message \<and>
   onmessage 0 two_frames_message mounted_session = (enqueue 0 two_frames mounted_session, None)"
proof -
  note t = playback_back_to_back [of 0 two_frames mounted_session
      "[(1 / 24000, two_frames), (0, one_second)]" one_second half_second two_frames_message
      "[65, 65, 65, 65, 65, 65, 61, 61]" "[0, 0, 0, 0]"]
  have d: "duration two_frames = 1 / 12000" "duration one_second = 1" "duration half_second = 1 / 2"
    by (simp_all add: duration_def two_frames_def one_second_def half_second_def)
  have m: "nextStartTimeRef mounted_session = 0" "nodes mounted_session = []"
    by (simp_all add: mounted_session_def)
  have c: "clock_behind (max (nextStartTimeRef mounted_session) 0 + duration two_frames)
     [(1 / 24000, two_frames), (0, one_second)]"
    by (simp add: d m)
  have "map startedAt (nodes (enqueue_all [(0, two_frames), (1 / 24000, two_frames), (0, one_second)]
                           mounted_session)) =
     [Some 0, Some (1 / 12000), Some (1 / 6000)]"
    using t c by (simp add: d m)
  moreover have "nextStartTimeRef (enqueue 0 half_second (enqueue 0 one_second mounted_session)) = 3 / 2"
    using t by (simp add: d m)
  moreover have "onmessage 0 two_frames_message mounted_session =
      (enqueue 0 two_frames mounted_session, None)"
    using t decode_two_frames decodeAudioData_two_frames by (simp add: two_frames_message_def)
  ultimately show ?thesis
    using c d m decode_two_frames decodeAudioData_two_frames
    by (simp add: two_frames_message_def)
qed

text \<open>
  C2. The interruption empties the live set, resets \<open>nextStartTime\<close> to 0 and stops
  every source of the live set; a source that was stopped stays so, and an exception of
  \<^verbatim>\<open>stop()\<close> is swallowed. With an empty set and the clock at 0 it changes
  nothing. The handler runs it for every message that carries the flag and whose audio
  part raised nothing: after the audio part, whatever that did; for a message without
  payload or with an empty one on the state as it was; for a message with a decodable
  payload after the enqueue of its buffer, whose new source is stopped with the
  others. It returns no exception then. The next enqueue starts at \<open>max 0 now\<close>.
\<close>

theorem interrupt_resets:
  "sourcesRef (interrupt s) = [] \<and> nextStartTimeRef (interrupt s) = 0 \<and>
   length (nodes (interrupt s)) = length (nodes s) \<and>
   (live_started s \<longrightarrow> (\<forall>src\<in>set (sourcesRef s). stopped (nodes (interrupt s) ! src))) \<and>
   (\<forall>i<length (nodes s). stopped (nodes s ! i) \<longrightarrow> stopped (nodes (interrupt s) ! i)) \<and>
   (sourcesRef s = [] \<and> nextStartTimeRef s = 0 \<longrightarrow> interrupt s = s) \<and>
   (interrupted m \<and> play_audio now m s = (s1, None) \<longrightarrow>
      onmessage now m s = (interrupt s1, None)) \<and>
   (interrupted m \<and> (inlineData m = None \<or> inlineData m = Some []) \<longrightarrow>
      onmessage now m s = (interrupt s, None)) \<and>
   (interrupted m \<and> inlineData m = Some a \<and> a \<noteq> [] \<and> decode a = Inr bytes \<and>
      decodeAudioData bytes 24000 1 = Inr played \<longrightarrow>
      onmessage now m s = (interrupt (enqueue now played s), None) \<and>
      (live_started s \<longrightarrow> stopped (nodes (interrupt (enqueue now played s)) ! length (nodes s)))) \<and>
   nodes (enqueue now frame (interrupt s)) =
     nodes (interrupt s) @ [\<lparr>node_buffer = frame, startedAt = Some (max 0 now), stopped = False\<rparr>] \<and>
   nextStartTimeRef (enqueue now frame (interrupt s)) = max 0 now + duration frame"
proof -
  have "stopped (nodes (interrupt (enqueue now played s)) ! length (nodes s))" if "live_started s"
    using interrupt_stops [OF live_started_enqueue [OF that] enqueue_live] .
  moreover have "onmessage now m s = (interrupt (enqueue now played s), None)"
    if "interrupted m" "inlineData m = Some a" "a \<noteq> []" "decode a = Inr bytes"
      "decodeAudioData bytes 24000 1 = Inr played"
    using that by (simp add: onmessage_def play_audio_def enqueue_def)
  moreover have "onmessage now m s = (interrupt s1, None)"
    if "interrupted m" "play_audio now m s = (s1, None)"
    using that by (simp add: onmessage_def)
  moreover have "onmessage now m s = (interrupt s, None)"
    if "interrupted m" "inlineData m = None \<or> inlineData m = Some []"
    using that by (auto simp: onmessage_def play_audio_def)
  moreover have "length (nodes (interrupt s)) = length (nodes s)"
    by (simp add: interrupt_def length_fold_try_stop)
  moreover have "sourcesRef (interrupt s) = []" "nextStartTimeRef (interrupt s) = 0"
    by (simp_all add: interrupt_def)
  ultimately show ?thesis
    using interrupt_stops [of s] interrupt_keeps_stopped [of _ s] interrupt_empty [of s]
    by (simp add: enqueue_nodes enqueue_clock)
qed

text \<open>
  C2 on the component with two sources playing and the clock at 3/2, interrupted at
  device time 7 by a message without payload and by the message \<^verbatim>\<open>AAAAAA==\<close> with the
  flag set, and on the mounted component, whose live set is empty.
\<close>

theorem interrupt_resets_witness:
  "live_started playing_session \<and> sourcesRef playing_session = [0, 1] \<and>
   nextStartTimeRef playing_session = 3 / 2 \<and>
   stopped (nodes (interrupt playing_session) ! 0) \<and>
   stopped (nodes (interrupt playing_session) ! 1) \<and>
   sourcesRef (interrupt playing_session) = [] \<and>
   nextStartTimeRef (interrupt playing_session) = 0 \<and>
   sourcesRef mounted_session = [] \<and> nextStartTimeRef mounted_session = 0 \<and>
   interrupt mounted_session = mounted_session \<and>
   interrupted \<lparr>inlineData = None, interrupted = True\<rparr> \<and>
   onmessage 7 \<lparr>inlineData = None, interrupted = True\<rparr> playing_session =
     (interrupt playing_session, None) \<and>
   interrupted flagged_two_frames_message \<and>
   inlineData flagged_two_frames_message = Some [65, 65, 65, 65, 65, 65, 61, 61] \<and>
   decode [65, 65, 65, 65, 65, 65, 61, 61] = Inr [0, 0, 0, 0] \<and>
   decodeAudioData [0, 0, 0, 0] 24000 1 = Inr two_frames \<and>
   play_audio 7 flagged_two_frames_message playing_session =
     (enqueue 7 two_frames playing_session, None) \<and>
   onmessage 7 flagged_two_frames_message playing_session =
     (interrupt (enqueue 7 two_frames playing_session), None) \<and>
   length (nodes playing_session) = 2 \<and>
   stopped (nodes (interrupt (enqueue 7 two_frames playing_session)) ! 2) \<and>
   startedAt (nodes (enqueue 7 two_frames (interrupt playing_session)) ! 2) = Some 7 \<and>
   nextStartTimeRef (enqueue 7 two_frames (interrupt playing_session)) = 7 + 1 / 12000"
proof -
  note t = interrupt_resets [of playing_session "\<lparr>inlineData = None, interrupted = True\<rparr>" 7
      playing_session "[]" "[]" two_frames two_frames]
  note u = interrupt_resets [of playing_session flagged_two_frames_message 7
      "enqueue 7 two_frames playing_session" "[65, 65, 65, 65, 65, 65, 61, 61]" "[0, 0, 0, 0]"
      two_frames two_frames]
  note v = interrupt_resets [of mounted_session "\<lparr>inlineData = None, interrupted = True\<rparr>" 7
      mounted_session "[]" "[]" two_frames two_frames]
  have l: "live_started playing_session" "sourcesRef playing_session = [0, 1]"
    "nextStartTimeRef playing_session = 3 / 2" "length (nodes playing_session) = 2"
    by (simp_all add: playing_session_eq live_started_def mounted_session_def)
  have f: "interrupted flagged_two_frames_message"
    "inlineData flagged_two_frames_message = Some [65, 65, 65, 65, 65, 65, 61, 61]"
    by (simp_all add: flagged_two_frames_message_def)
  have p: "play_audio 7 flagged_two_frames_message playing_session =
      (enqueue 7 two_frames playing_session, None)"
    using f decode_two_frames decodeAudioData_two_frames
    by (simp add: play_audio_def enqueue_def)
  have a: "stopped (nodes (interrupt playing_session) ! 0)"
    "stopped (nodes (interrupt playing_session) ! 1)"
    "sourcesRef (interrupt playing_session) = []"
    "nextStartTimeRef (interrupt playing_session) = 0"
    "onmessage 7 \<lparr>inlineData = None, interrupted = True\<rparr> playing_session =
       (interrupt playing_session, None)"
    using t l by simp_all
  have b: "onmessage 7 flagged_two_frames_message playing_session =
       (interrupt (enqueue 7 two_frames playing_session), None)"
    "stopped (nodes (interrupt (enqueue 7 two_frames playing_session)) ! 2)"
    using u l f p decode_two_frames decodeAudioData_two_frames by simp_all
  have c: "startedAt (nodes (enqueue 7 two_frames (interrupt playing_session)) ! 2) = Some 7"
    "nextStartTimeRef (enqueue 7 two_frames (interrupt playing_session)) = 7 + 1 / 12000"
    using t l by (simp_all add: nth_append duration_def two_frames_def)
  have d: "sourcesRef mounted_session = []" "nextStartTimeRef mounted_session = 0"
    by (simp_all add: mounted_session_def)
  have e: "interrupt mounted_session = mounted_session"
    using v d by simp
  show ?thesis
    using l f p a b c d e decode_two_frames decodeAudioData_two_frames by simp
qed

subsection \<open>PCM codec\<close>

text \<open>
  C3 as stated fails at the sample 1.0, which lies in the range \<open>[-1, 1]\<close>:
  \<open>1.0 * 32768 = 32768\<close> is stored into the \<^verbatim>\<open>Int16Array\<close> as \<open>-32768\<close> (bytes 0, 128,
  base64 \<^verbatim>\<open>AIA=\<close>) and comes back as \<open>-1.0\<close>, at distance 2 from the original.
\<close>

theorem pcm_roundtrip_fails_at_one:
  "- 1 \<le> (1::real) \<and> (1::real) \<le> 1 \<and>
   createBlob [1] = Inr \<lparr>data = [65, 73, 65, 61], mimeType = ''audio/pcm;rate=16000''\<rparr> \<and>
   decode [65, 73, 65, 61] = Inr [0, 128] \<and>
   decodeAudioData [0, 128] 24000 1 =
     Inr \<lparr>numberOfChannels = 1, buffer_length = 1, sampleRate = 24000, channelData = [[- 1]]\<rparr> \<and>
   \<not> \<bar>(- 1) - (1::real)\<bar> \<le> 1 / 32768"
proof -
  have "createBlob [1] = Inr \<lparr>data = [65, 73, 65, 61], mimeType = ''audio/pcm;rate=16000''\<rparr>"
    using toInt16_one by (simp add: createBlob_def uint8_view_one encode_one)
  then show ?thesis using decode_one decodeAudioData_one by simp
qed

text \<open>
  C3, amended. For every non-empty sample array with all values in \<open>[-1, 1)\<close>,
  \<^verbatim>\<open>createBlob\<close> followed by \<^verbatim>\<open>decode\<close> and \<^verbatim>\<open>decodeAudioData\<close> with the one channel
  and the rate 24000 of the handler returns a buffer whose single channel has as many
  samples as the array, each within one quantization step \<open>1/32768\<close> of the original.
\<close>

theorem pcm_roundtrip_below_one:
  assumes "xs \<noteq> []" and "\<forall>x\<in>set xs. - 1 \<le> x \<and> x < 1"
  shows "\<exists>blob bytes buf ys.
           createBlob xs = Inr blob \<and> decode (data blob) = Inr bytes \<and>
           decodeAudioData bytes 24000 1 = Inr buf \<and> channelData buf = [ys] \<and>
           length ys = length xs \<and> (\<forall>i<length xs. \<bar>ys ! i - xs ! i\<bar> \<le> 1 / 32768)"
proof -
  let ?ws = "map (\<lambda>x. toInt16 (x * 32768)) xs"
  let ?ys = "map (\<lambda>w. real_of_int (sint w) / 32768) ?ws"
  obtain blob where b: "createBlob xs = Inr blob" "decode (data blob) = Inr (uint8_view ?ws)"
    using createBlob_decode by blast
  have "?ws \<noteq> []" using assms(1) by simp
  from decodeAudioData_mono [OF this, of 24000]
  obtain buf where d: "decodeAudioData (uint8_view ?ws) 24000 1 = Inr buf" "channelData buf = [?ys]"
    by simp
  have "\<bar>?ys ! i - xs ! i\<bar> \<le> 1 / 32768" if "i < length xs" for i
  proof -
    have "- 1 \<le> xs ! i" "xs ! i < 1" using assms(2) that by simp_all
    from sample_roundtrip [OF this] show ?thesis using that by simp
  qed
  with b d show ?thesis by auto
qed

text \<open>C3, amended, at the samples 1/2 and -1/4 and the rate 24000.\<close>

theorem pcm_roundtrip_below_one_witness:
  "[1 / 2, - 1 / 4] \<noteq> ([] :: real list) \<and> - 1 \<le> (1 / 2 :: real) \<and> (1 / 2 :: real) < 1 \<and>
   - 1 \<le> (- 1 / 4 :: real) \<and> (- 1 / 4 :: real) < 1 \<and>
   (\<exists>blob bytes buf ys.
      createBlob [1 / 2, - 1 / 4] = Inr blob \<and> decode (data blob) = Inr bytes \<and>
      decodeAudioData bytes 24000 1 = Inr buf \<and> channelData buf = [ys] \<and>
      length ys = 2 \<and> \<bar>ys ! 0 - 1 / 2\<bar> \<le> 1 / 32768 \<and> \<bar>ys ! 1 - (- 1 / 4)\<bar> \<le> 1 / 32768)"
  using pcm_roundtrip_below_one [of "[1 / 2, - 1 / 4]"]
  by (simp add: All_less_Suc numeral_2_eq_2) blast

text \<open>
  C4 as stated fails at a payload of one byte (base64 \<^verbatim>\<open>AA==\<close>), whose length is not a
  multiple of \<open>2 * 1\<close>: \<^verbatim>\<open>decodeAudioData\<close> raises a \<^verbatim>\<open>RangeError\<close> and returns no
  buffer, and \<^verbatim>\<open>onmessage\<close> ends with that exception.
\<close>

theorem odd_payload_raises:
  "length [0 :: byte] mod (2 * 1) \<noteq> 0 \<and>
   decodeAudioData [0] 24000 1 = Inl RangeError \<and>
   decode [65, 65, 61, 61] = Inr [0] \<and>
   onmessage 0 \<lparr>inlineData = Some [65, 65, 61, 61], interrupted = False\<rparr> mounted_session =
     (mounted_session, Some RangeError)"
  by (simp add: decodeAudioData_odd decode_AA onmessage_def play_audio_def clock_sync_def
      mounted_session_def)

text \<open>
  C4, amended. On a byte array of odd length \<^verbatim>\<open>decodeAudioData\<close> raises a
  \<^verbatim>\<open>RangeError\<close>, whatever the rate and the channel count. \<^verbatim>\<open>onmessage\<close> does not catch
  it: for a message whose audio payload decodes to such an array the handler ends with
  the \<^verbatim>\<open>RangeError\<close>, having only moved \<open>nextStartTime\<close> up to the device clock. No
  source is scheduled, the interruption flag of the message is not looked at, and the
  status, the live set and every handle are as before, so the session goes on.
\<close>

theorem odd_payload_propagates:
  assumes "odd (length bytes)"
  shows "decodeAudioData bytes rate numChannels = Inl RangeError \<and>
         (inlineData m = Some a \<and> a \<noteq> [] \<and> decode a = Inr bytes \<longrightarrow>
            onmessage now m s =
              (s\<lparr>nextStartTimeRef := max (nextStartTimeRef s) now\<rparr>, Some RangeError))"
  using assms
  by (simp add: decodeAudioData_odd onmessage_def play_audio_def clock_sync_def)

text \<open>C4, amended, at the one-byte payload \<^verbatim>\<open>AA==\<close> arriving at device time 5.\<close>

theorem odd_payload_propagates_witness:
  "odd (length [0 :: byte]) \<and> decodeAudioData [0] 24000 1 = Inl RangeError \<and>
   decode [65, 65, 61, 61] = Inr [0] \<and>
   onmessage 5 \<lparr>inlineData = Some [65, 65, 61, 61], interrupted = True\<rparr> mounted_session =
     (mounted_session\<lparr>nextStartTimeRef := 5\<rparr>, Some RangeError)"
  using odd_payload_propagates [of "[0]" 24000 1 "\<lparr>inlineData = Some [65, 65, 61, 61], interrupted = True\<rparr>" "[65, 65, 61, 61]" 5 mounted_session]
  by (simp add: decode_AA mounted_session_def)

subsection \<open>Capture pipeline\<close>

text \<open>
  C5 does not hold of the code. The mute test of \<^verbatim>\<open>onaudioprocess\<close> reads the
  \<^verbatim>\<open>isMuted\<close> of the render in which \<^verbatim>\<open>startSession\<close> was called, not the state that
  \<^verbatim>\<open>toggleMute\<close> sets. In the run from the mount, after \<^verbatim>\<open>toggleMute\<close> the session is
  connected and muted, and still every capture block is encoded and sent as one
  message.
\<close>

theorem muted_block_still_sent:
  "liveCallbacks connecting_session = Some start_env \<and>
   status (toggleMute connected_session) = Connected \<and>
   isMuted (toggleMute connected_session) \<and>
   (\<forall>inputData. \<exists>pcmBlob.
      createBlob inputData = Inr pcmBlob \<and>
      sent (onaudioprocess start_env inputData (toggleMute connected_session)) =
        sent (toggleMute connected_session) @ [pcmBlob])"
proof -
  have "\<exists>pcmBlob. createBlob inputData = Inr pcmBlob \<and>
      sent (onaudioprocess start_env inputData (toggleMute connected_session)) =
        sent (toggleMute connected_session) @ [pcmBlob]" for inputData
  proof -
    obtain pcmBlob where b: "createBlob inputData = Inr pcmBlob"
      using createBlob_total by blast
    then show ?thesis
      by (simp add: onaudioprocess_def toggleMute_def connected_session_eq start_env_def
          mounted_session_def)
  qed
  then show ?thesis
    by (simp add: toggleMute_def run_states mounted_session_def)
qed

subsection \<open>Session controller\<close>

text \<open>
  C6. \<^verbatim>\<open>stopSession\<close> leaves the status idle, the session inactive, every ref null and
  the playback clock at 0, from any state. A second call changes nothing, and neither
  does a call on the mounted component that was never started. What the refs held is
  released: the timer is cleared, the streams have no live track, the capture nodes are
  disconnected, the contexts are closed, and the connection is neither pending nor
  open. On a rejected promise the close request raises, and the exception is swallowed.
\<close>

theorem stopSession_idempotent:
  "status (stopSession s) = Idle \<and> \<not> isActive (stopSession s) \<and>
   screenIntervalRef (stopSession s) = None \<and> screenStreamRef (stopSession s) = None \<and>
   processorRef (stopSession s) = None \<and> sourceRef (stopSession s) = None \<and>
   streamRef (stopSession s) = None \<and> audioContextRef (stopSession s) = None \<and>
   inputAudioContextRef (stopSession s) = None \<and> sessionPromiseRef (stopSession s) = None \<and>
   nextStartTimeRef (stopSession s) = 0 \<and>
   stopSession (stopSession s) = stopSession s \<and>
   stopSession mounted_session = mounted_session \<and>
   (\<forall>t. screenIntervalRef s = Some t \<longrightarrow> intervals (stopSession s) t = None) \<and>
   (\<forall>st. screenStreamRef s = Some st \<or> streamRef s = Some st \<longrightarrow>
      st \<notin> liveStreams (stopSession s)) \<and>
   (\<forall>n. processorRef s = Some n \<or> sourceRef s = Some n \<longrightarrow>
      n \<notin> connectedNodes (stopSession s)) \<and>
   (\<forall>c. audioContextRef s = Some c \<or> inputAudioContextRef s = Some c \<longrightarrow>
      c \<notin> openContexts (stopSession s)) \<and>
   (\<forall>p. sessionPromiseRef s = Some p \<longrightarrow>
      transports (stopSession s) p \<noteq> Some Pending \<and> transports (stopSession s) p \<noteq> Some Open) \<and>
   (\<forall>p. sessionPromiseRef s = Some p \<and> transports s p = Some Rejected \<longrightarrow>
      then_close p s = Inl NetworkError \<and> close_swallowing p s = s)"
proof -
  have "transports (stopSession s) p \<noteq> Some Pending \<and> transports (stopSession s) p \<noteq> Some Open"
    if "sessionPromiseRef s = Some p" for p
    using that closed_transports_not_open [of p "transports s"] by simp
  moreover have "then_close p s = Inl NetworkError \<and> close_swallowing p s = s"
    if "transports s p = Some Rejected" for p
    using that by (simp add: then_close_def close_swallowing_def)
  ultimately show ?thesis
    by (auto simp: stopSession_twice stopSession_mounted cleared_def)
qed

text \<open>
  C6 on the run with the screen shared, where every ref is set, and on a session whose
  promise was rejected.
\<close>

theorem stopSession_idempotent_witness:
  "screenIntervalRef sharing_session = Some 8 \<and> intervals (stopSession sharing_session) 8 = None \<and>
   screenStreamRef sharing_session = Some 7 \<and> 7 \<notin> liveStreams (stopSession sharing_session) \<and>
   streamRef sharing_session = Some 3 \<and> 3 \<notin> liveStreams (stopSession sharing_session) \<and>
   processorRef sharing_session = Some 6 \<and> 6 \<notin> connectedNodes (stopSession sharing_session) \<and>
   sourceRef sharing_session = Some 5 \<and> 5 \<notin> connectedNodes (stopSession sharing_session) \<and>
   audioContextRef sharing_session = Some 2 \<and> 2 \<notin> openContexts (stopSession sharing_session) \<and>
   inputAudioContextRef sharing_session = Some 1 \<and>
   1 \<notin> openContexts (stopSession sharing_session) \<and>
   sessionPromiseRef sharing_session = Some 4 \<and>
   transports (stopSession sharing_session) 4 \<noteq> Some Open \<and>
   status (stopSession sharing_session) = Idle \<and>
   stopSession (stopSession sharing_session) = stopSession sharing_session \<and>
   sessionPromiseRef (connecting_session\<lparr>transports := [4 \<mapsto> Rejected]\<rparr>) = Some 4 \<and>
   transports (connecting_session\<lparr>transports := [4 \<mapsto> Rejected]\<rparr>) 4 = Some Rejected \<and>
   then_close 4 (connecting_session\<lparr>transports := [4 \<mapsto> Rejected]\<rparr>) = Inl NetworkError \<and>
   status (stopSession (connecting_session\<lparr>transports := [4 \<mapsto> Rejected]\<rparr>)) = Idle"
  using stopSession_idempotent [of sharing_session]
    stopSession_idempotent [of "connecting_session\<lparr>transports := [4 \<mapsto> Rejected]\<rparr>"]
  by (simp add: run_states mounted_session_def)

text \<open>
  C7 does not hold of the code. When the microphone is refused, \<^verbatim>\<open>startSession\<close> sets
  the status to error and stops there: both audio contexts stay open and stay in
  their refs. A teardown would close them, and the \<^verbatim>\<open>onerror\<close> callback of the
  connection does run it.
\<close>

theorem mic_failure_keeps_contexts:
  "status failed_session = Error \<and>
   inputAudioContextRef failed_session = Some 1 \<and> audioContextRef failed_session = Some 2 \<and>
   openContexts failed_session = {2, 1} \<and>
   openContexts (stopSession failed_session) = {} \<and>
   openContexts (onerror connecting_session) = {} \<and>
   liveStreams (onerror connecting_session) = {}"
  by (simp add: run_states mounted_session_def onerror_def)

text \<open>
  C8 as stated fails. After a refused microphone the status is error, the Start button
  is enabled, and a click enters the connecting state: not only from idle. And
  \<^verbatim>\<open>startSession\<close> called on the connected session is no no-op: it sets the status to
  connecting and acquires new handles.
\<close>

theorem start_not_guarded:
  "status failed_session = Error \<and> status (click_start (Inr ()) None failed_session) = Connecting \<and>
   status connected_session = Connected \<and>
   status (startSession (Inr ()) None connected_session) = Connecting \<and>
   nextHandle (startSession (Inr ()) None connected_session) \<noteq> nextHandle connected_session"
  by (simp add: run_states mounted_session_def click_start_def start_button_enabled_def
      startSession_def Let_def)

text \<open>
  C8, amended. \<^verbatim>\<open>startSession\<close> has no guard on the status; it returns at once only
  when the client is missing. The guard is the Start button, its only caller, rendered
  while \<^verbatim>\<open>isActive\<close> is false and disabled while the status is connecting: a click
  does nothing while the session is connecting or active, so no second attempt begins
  then. The connecting state is entered from idle or from error, and from both a click
  with the microphone granted enters it.
\<close>

theorem start_guarded_by_button:
  "(status s = Connecting \<or> isActive s \<longrightarrow> click_start mic c s = s) \<and>
   (\<not> aiRef s \<longrightarrow> startSession mic c s = s) \<and>
   (active_when_connected s \<and> status s \<noteq> Connecting \<and>
      status (click_start mic c s) = Connecting \<longrightarrow> status s = Idle \<or> status s = Error) \<and>
   (aiRef s \<and> \<not> isActive s \<and> (status s = Idle \<or> status s = Error) \<longrightarrow>
      status (click_start (Inr ()) None s) = Connecting)"
proof -
  have "status s = Idle \<or> status s = Error"
    if "active_when_connected s" "status s \<noteq> Connecting" "status (click_start mic c s) = Connecting"
  proof -
    have "start_button_enabled s" using that(2,3) by (auto simp: click_start_def split: if_splits)
    then have "\<not> isActive s" by (simp add: start_button_enabled_def)
    with that(1) have "status s \<noteq> Connected" by (auto simp: active_when_connected_def)
    with that(2) show ?thesis by (cases "status s") simp_all
  qed
  moreover have "status (click_start (Inr ()) None s) = Connecting"
    if "aiRef s" "\<not> isActive s" "status s = Idle \<or> status s = Error"
    using that by (auto simp: click_start_def start_button_enabled_def startSession_def Let_def)
  ultimately show ?thesis
    by (auto simp: click_start_def start_button_enabled_def startSession_def)
qed

text \<open>
  C8, amended, on the connecting and the connected session of the run, on a component
  without client, and on the session whose microphone was refused.
\<close>

theorem start_guarded_by_button_witness:
  "status connecting_session = Connecting \<and>
   click_start (Inr ()) None connecting_session = connecting_session \<and>
   isActive connected_session \<and>
   click_start (Inr ()) None connected_session = connected_session \<and>
   \<not> aiRef (mounted_session\<lparr>aiRef := False\<rparr>) \<and>
   startSession (Inr ()) None (mounted_session\<lparr>aiRef := False\<rparr>) = mounted_session\<lparr>aiRef := False\<rparr> \<and>
   active_when_connected failed_session \<and> status failed_session \<noteq> Connecting \<and>
   status (click_start (Inr ()) None failed_session) = Connecting \<and>
   status failed_session = Error \<and> aiRef failed_session \<and> \<not> isActive failed_session"
  using start_guarded_by_button [of connecting_session "Inr ()" None]
    start_guarded_by_button [of connected_session "Inr ()" None]
    start_guarded_by_button [of "mounted_session\<lparr>aiRef := False\<rparr>" "Inr ()" None]
    start_guarded_by_button [of failed_session "Inr ()" None]
  by (simp add: run_states mounted_session_def active_when_connected_def)

subsection \<open>Screen frame pipeline\<close>

text \<open>
  C9. Sharing the screen registers an interval timer of 1000 milliseconds and the
  \<^verbatim>\<open>onended\<close> handler of the video track. A tick on a live display stream with an
  open connection sends one JPEG frame. A tick after the display stream has ended sends
  nothing and does what \<^verbatim>\<open>stopScreenShare\<close> does: the timer is cleared and the sharing
  flag reset. The \<^verbatim>\<open>onended\<close> handler does what \<^verbatim>\<open>stopScreenShare\<close>, the handler of
  the Stop button, does.
\<close>

theorem screen_share_cadence:
  "(sessionPromiseRef s \<noteq> None \<and> videoRef s \<and> canvasRef s \<longrightarrow>
      screenStreamRef (startScreenShare (Inr ()) True s) = Some (nextHandle s) \<and>
      screenIntervalRef (startScreenShare (Inr ()) True s) = Some (nextHandle s + 1) \<and>
      intervals (startScreenShare (Inr ()) True s) (nextHandle s + 1) = Some 1000 \<and>
      nextHandle s \<in> onendedHandlers (startScreenShare (Inr ()) True s)) \<and>
   (screenStreamRef s = Some st \<and> st \<in> liveStreams s \<and> sessionPromiseRef s = Some p \<and>
      transports s p = Some Open \<longrightarrow>
      screenTick base64Data s = s\<lparr>sent := sent s @ [\<lparr>data = base64Data, mimeType = ''image/jpeg''\<rparr>]\<rparr>) \<and>
   (screenStreamRef s = Some st \<and> st \<notin> liveStreams s \<longrightarrow>
      screenTick base64Data s = stopScreenShare s \<and>
      sent (screenTick base64Data s) = sent s \<and>
      screenIntervalRef (screenTick base64Data s) = None \<and>
      intervals (screenTick base64Data s) = cleared (screenIntervalRef s) (intervals s) \<and>
      \<not> isScreenSharing (screenTick base64Data s)) \<and>
   track_onended s = stopScreenShare s"
  by (auto simp: screenTick_def track_onended_def startScreenShare_def Let_def)

text \<open>
  C9 on the run: the connected session starts sharing, a tick on the shared screen, and
  a tick after the user has revoked the sharing.
\<close>

theorem screen_share_cadence_witness:
  "sessionPromiseRef connected_session \<noteq> None \<and> videoRef connected_session \<and>
   canvasRef connected_session \<and>
   screenStreamRef sharing_session = Some 7 \<and> screenIntervalRef sharing_session = Some 8 \<and>
   intervals sharing_session 8 = Some 1000 \<and> 7 \<in> onendedHandlers sharing_session \<and>
   7 \<in> liveStreams sharing_session \<and> sessionPromiseRef sharing_session = Some 4 \<and>
   transports sharing_session 4 = Some Open \<and>
   sent (screenTick [65] sharing_session) = [\<lparr>data = [65], mimeType = ''image/jpeg''\<rparr>] \<and>
   screenStreamRef revoked_session = Some 7 \<and> 7 \<notin> liveStreams revoked_session \<and>
   screenTick [65] revoked_session = stopScreenShare revoked_session \<and>
   sent (screenTick [65] revoked_session) = [] \<and>
   screenIntervalRef (screenTick [65] revoked_session) = None \<and>
   intervals (screenTick [65] revoked_session) 8 = None \<and>
   track_onended revoked_session = stopScreenShare revoked_session"
  using screen_share_cadence [of connected_session 7 4 "[65]"]
    screen_share_cadence [of sharing_session 7 4 "[65]"]
    screen_share_cadence [of revoked_session 7 4 "[65]"]
  by (simp add: run_states revoked_session_def mounted_session_def cleared_def
      sharing_session_def [symmetric])

subsection \<open>Transport encoding\<close>

text \<open>
  C10. For every byte array \<open>b\<close>, \<^verbatim>\<open>encode\<close> returns a string and \<^verbatim>\<open>decode\<close> of that
  string returns exactly \<open>b\<close>: the transport encoding loses and alters no byte.
\<close>

theorem base64_roundtrip: "\<exists>s. encode b = Inr s \<and> decode s = Inr b"
  by (rule decode_encode)

text \<open>C10 at the bytes 1, 2, 255, whose base64 text is \<^verbatim>\<open>AQL/\<close>.\<close>

theorem base64_roundtrip_witness:
  "encode [1, 2, 255] = Inr [65, 81, 76, 47] \<and> decode [65, 81, 76, 47] = Inr [1, 2, 255]"
proof -
  have e: "encode [1, 2, 255] = Inr [65, 81, 76, 47]"
    by (simp add: encode_def btoa_def b64char_def)
  with base64_roundtrip [of "[1, 2, 255]"] show ?thesis by simp
qed

end
